theory Spec2Isabelle
  imports Main "HOL-Library.Sublist"
begin

section \<open>Data model (src/src/action.ts and the types it imports)\<close>

text \<open>
  The action polls the Cloudflare Pages deployment list until the tracked deployment
  reaches a terminal stage, mirrors the status into GitHub deployments and optionally
  sends a Slack message. Everything the code does to the outside world is recorded as
  an event of a trace; everything the outside world answers is an input of the model.
\<close>

text \<open>A JavaScript \<open>Error\<close> value: its name and its message.\<close>

datatype js_error = Js_error (err_name: string) (err_message: string)

text \<open>\<open>Error.prototype.toString\<close>: the separator is dropped when either part is empty.\<close>

definition error_toString :: "js_error \<Rightarrow> string" where
  "error_toString e =
     (if err_name e = '''' then err_message e
      else if err_message e = '''' then err_name e
      else err_name e @ '': '' @ err_message e)"

text \<open>\<open>Deployment\<close> of \<open>./types\<close>, restricted to the fields that action.ts reads.\<close>

record stage =
  name :: string
  status :: string

record trigger_metadata =
  branch :: string
  commit_hash :: string

record deployment =
  dep_id :: string
  project_name :: string
  environment :: string
  url :: string
  aliases :: "string list option"  \<comment> \<open>\<open>null\<close> is \<open>None\<close>\<close>
  is_skipped :: bool
  latest_stage :: stage
  deployment_trigger :: trigger_metadata  \<comment> \<open>\<open>deployment_trigger.metadata\<close>\<close>

text \<open>
  \<open>ApiResponse\<close> of \<open>./types\<close>. The element type of \<open>errors\<close> is not declared in
  action.ts; an error is represented by the text \<open>JSON.stringify\<close> yields for it.
  \<open>result\<close> may be missing (the code reads it with \<open>?.\<close>).
\<close>

record api_response =
  success :: bool
  errors :: "string list"
  result :: "deployment list option"

text \<open>What one request to the deployment list endpoint can yield.\<close>

datatype poll_response =
    Network_failure js_error          \<comment> \<open>\<open>fetch\<close> throws\<close>
  | Not_json nat string js_error      \<comment> \<open>\<open>res.json()\<close> throws; status, statusText\<close>
  | Json_body api_response

text \<open>What the request to the history/logs endpoint can yield.\<close>

datatype logs_body =
    Body_throws js_error              \<comment> \<open>\<open>res.json()\<close> throws, or reading \<open>body.result\<close> does\<close>
  | Body_no_data                      \<comment> \<open>\<open>body.result?.data\<close> is not an array\<close>
  | Body_data "string list"           \<comment> \<open>the \<open>line\<close> of each entry of \<open>body.result.data\<close>\<close>

datatype logs_response =
    Logs_network_failure js_error
  | Logs_response bool nat string logs_body  \<comment> \<open>\<open>res.ok\<close>, status, statusText, body\<close>

datatype auth_headers =
    Bearer string                     \<comment> \<open>\<open>Authorization: Bearer token\<close>\<close>
  | Email_key string string           \<comment> \<open>\<open>X-Auth-Email\<close>, \<open>X-Auth-Key\<close>\<close>

datatype gh_state = In_progress | Success | Failure

datatype out_value = Out_string string | Out_bool bool | Out_undefined

record create_deployment_args =
  cd_owner :: string
  cd_repo :: string
  cd_ref :: string
  cd_environment :: string
  cd_production_environment :: bool

record create_status_args =
  cs_owner :: string
  cs_repo :: string
  cs_deployment_id :: nat
  cs_environment :: string
  cs_environment_url :: string
  cs_log_url :: string
  cs_state :: gh_state

text \<open>
  The observable actions of a run, in the order the code performs them. The two handlers
  of a Slack send are the exception: the send is not awaited, so the line of its
  \<open>.then\<close> or \<open>.catch\<close> handler is printed when the promise settles, at some moment
  after the send. They are events of their own, recorded where the handlers are attached.
\<close>

datatype event =
    Sleep                                         \<comment> \<open>\<open>await sleep()\<close>\<close>
  | Fetch_deployments auth_headers string         \<comment> \<open>headers, URL\<close>
  | Fetch_logs auth_headers string
  | Console_log string
  | Console_error string
  | Core_error string
  | Set_failed string
  | Set_output string out_value
  | Call_updateDeployment gh_state                \<comment> \<open>a call site of \<open>updateDeployment\<close> in \<open>run\<close>\<close>
  | Create_deployment create_deployment_args
  | Create_deployment_status create_status_args
  | Slack_send string
  | Slack_then string                             \<comment> \<open>\<open>console.log\<close> of the \<open>.then\<close> handler, later\<close>
  | Slack_catch string                            \<comment> \<open>\<open>console.error\<close> of the \<open>.catch\<close> handler, later\<close>

text \<open>
  The inputs of the action as \<open>core.getInput\<close> returns them (trimmed, \<open>''''\<close> when not
  supplied) and the fields of the GitHub \<open>context\<close> that are read. For the two required
  inputs the raw value is kept as well: \<open>getInput\<close> throws when the raw value of a
  required input is empty and trims only afterwards, so an input of blanks is supplied
  and yields \<open>''''\<close>.
\<close>

record inputs =
  accountEmail :: string
  apiKey :: string
  apiToken :: string
  accountId_raw :: string
  accountId :: string
  project_raw :: string
  project :: string
  githubToken :: string
  commitHash :: string
  slackWebHook :: string
  commitUrl :: string
  actor :: string
  repo_owner :: string
  repo_name :: string

text \<open>
  The answers of the external services: the GitHub REST API (a call either throws or
  returns), the history/logs endpoint and the Slack client (the promise of \<open>send\<close>
  either resolves or rejects, depending on the webhook it was built with and the text).
\<close>

record world =
  createDeployment :: "create_deployment_args \<Rightarrow> js_error + nat"  \<comment> \<open>\<open>data.id\<close>\<close>
  createDeploymentStatus :: "create_status_args \<Rightarrow> js_error option"
  logs_endpoint :: "string \<Rightarrow> logs_response"
  slack_delivery :: "string \<Rightarrow> string \<Rightarrow> js_error option"  \<comment> \<open>webhook, text\<close>

text \<open>The module-level variables and the local \<open>lastStage\<close> of \<open>run\<close>.\<close>

record run_state =
  waiting :: bool
  ghDeployment :: "nat option"
  markedAsInProgress :: bool
  lastStage :: string

definition initial_state :: run_state where
  "initial_state = \<lparr>waiting = True, ghDeployment = None, markedAsInProgress = False, lastStage = ''''\<rparr>"

section \<open>Helpers of the JavaScript runtime\<close>

fun show_nat :: "nat \<Rightarrow> string" where
  "show_nat n = (if n < 10 then [char_of (48 + n)] else show_nat (n div 10) @ [char_of (48 + n mod 10)])"

declare show_nat.simps [simp del]

text \<open>\<open>Array.prototype.join\<close>.\<close>

fun join :: "string \<Rightarrow> string list \<Rightarrow> string" where
  "join sep [] = ''''"
| "join sep [x] = x"
| "join sep (x # y # ys) = x @ sep @ join sep (y # ys)"

text \<open>\<open>xs.slice(-n)\<close>: the last \<open>n\<close> elements, all of them when there are fewer.\<close>

definition slice_last :: "nat \<Rightarrow> 'a list \<Rightarrow> 'a list" where
  "slice_last n xs = drop (length xs - n) xs"

section \<open>validateAuthInputs\<close>

definition auth_failure_message :: string where
  "auth_failure_message =
     ''Please specify authentication details! Set either `apiToken` or `accountEmail` + `accountKey`!''"

definition validateAuthInputs :: "string \<Rightarrow> string \<Rightarrow> string \<Rightarrow> bool \<times> event list" where
  "validateAuthInputs token email key =
     (if token \<noteq> '''' then (True, [])
      else if email \<noteq> '''' \<and> key \<noteq> '''' then (True, [])
      else (False, [Set_failed auth_failure_message]))"

section \<open>pollApi\<close>

definition deployments_url :: "string \<Rightarrow> string \<Rightarrow> string" where
  "deployments_url account proj =
     ''https://api.cloudflare.com/client/v4/accounts/'' @ account @ ''/pages/projects/'' @ proj
       @ ''/deployments?sort_by=created_on&sort_order=desc''"

definition unknown_error :: string where
  "unknown_error = [CHR 0x22] @ ''Unknown error!'' @ [CHR 0x22]"  \<comment> \<open>\<open>JSON.stringify\<close> of the string\<close>

text \<open>
  Returns the deployment (or \<open>undefined\<close>), the state (the API error branch clears
  \<open>waiting\<close>) and the events.
\<close>

definition pollApi ::
  "auth_headers \<Rightarrow> string \<Rightarrow> string \<Rightarrow> string \<Rightarrow> poll_response \<Rightarrow> run_state
     \<Rightarrow> deployment option \<times> run_state \<times> event list" where
  "pollApi authHeaders account proj hash response st =
     (let request = Fetch_deployments authHeaders (deployments_url account proj) in
      case response of
        Network_failure e \<Rightarrow>
          (None, st,
           [request,
            Core_error (''Failed to send request to CF API - network issue? '' @ err_message e),
            Set_failed (error_toString e)])
      | Not_json code text e \<Rightarrow>
          (None, st,
           [request,
            Core_error (''CF API did not return a JSON (possibly down?) - Status code: ''
                        @ show_nat code @ '' ('' @ text @ '')''),
            Set_failed (error_toString e)])
      | Json_body body \<Rightarrow>
          if \<not> success body then
            (None, st\<lparr>waiting := False\<rparr>,
             [request,
              Set_failed (''Failed to check deployment status! Error: ''
                          @ (case errors body of [] \<Rightarrow> unknown_error | err # _ \<Rightarrow> err))])
          else if hash = '''' then
            (case result body of
               None \<Rightarrow> None
             | Some [] \<Rightarrow> None
             | Some (d # _) \<Rightarrow> Some d,
             st, [request])
          else
            (case result body of
               None \<Rightarrow> None
             | Some ds \<Rightarrow> find (\<lambda>d. commit_hash (deployment_trigger d) = hash) ds,
             st, [request]))"

section \<open>updateDeployment\<close>

definition environment_label :: "deployment \<Rightarrow> string" where
  "environment_label d =
     (if environment d = ''production'' then ''Production''
      else ''Preview ('' @ branch (deployment_trigger d) @ '')'')"

definition dashboard_log_url :: "deployment \<Rightarrow> string" where
  "dashboard_log_url d =
     ''https://dash.cloudflare.com?to=/:account/pages/view/'' @ project_name d @ ''/'' @ dep_id d"

text \<open>The second half of \<open>updateDeployment\<close>, once \<open>ghDeployment\<close> holds the record \<open>n\<close>.\<close>

definition push_status ::
  "inputs \<Rightarrow> world \<Rightarrow> deployment \<Rightarrow> gh_state \<Rightarrow> nat \<Rightarrow> js_error option \<times> event list" where
  "push_status i w d state n =
     (if name (latest_stage d) = ''deploy'' \<and> status (latest_stage d) \<in> set [''success'', ''failed'']
      then
        (let args = \<lparr>cs_owner = repo_owner i, cs_repo = repo_name i, cs_deployment_id = n,
                     cs_environment = environment_label d, cs_environment_url = url d,
                     cs_log_url = dashboard_log_url d, cs_state = state\<rparr>
         in (createDeploymentStatus w args, [Create_deployment_status args]))
      else (None, []))"

text \<open>Returns the error thrown (if any), the state and the events.\<close>

definition updateDeployment ::
  "inputs \<Rightarrow> world \<Rightarrow> string \<Rightarrow> deployment \<Rightarrow> gh_state \<Rightarrow> run_state
     \<Rightarrow> js_error option \<times> run_state \<times> event list" where
  "updateDeployment i w token d state st =
     (if token = '''' then (None, st, [])
      else
        case ghDeployment st of
          None \<Rightarrow>
            (let args = \<lparr>cd_owner = repo_owner i, cd_repo = repo_name i,
                         cd_ref = commit_hash (deployment_trigger d),
                         cd_environment = environment_label d,
                         cd_production_environment = (environment d = ''production'')\<rparr>
             in case createDeployment w args of
                  Inl e \<Rightarrow> (Some e, st, [Create_deployment args])
                | Inr n \<Rightarrow>
                    (let (err, ev) = push_status i w d state n
                     in (err, st\<lparr>ghDeployment := Some n\<rparr>, Create_deployment args # ev)))
        | Some n \<Rightarrow> (let (err, ev) = push_status i w d state n in (err, st, ev)))"

section \<open>getCloudflareLogs\<close>

definition logs_url :: "string \<Rightarrow> string \<Rightarrow> string \<Rightarrow> string" where
  "logs_url account proj deploymentId =
     ''https://api.cloudflare.com/client/v4/accounts/'' @ account @ ''/pages/projects/'' @ proj
       @ ''/deployments/'' @ deploymentId @ ''/history/logs''"

definition fence :: string where
  "fence = [CHR 0x60, CHR 0x60, CHR 0x60]"

definition newline :: string where
  "newline = [CHR 0x0A]"

text \<open>Returns the string and the events; no branch throws.\<close>

definition getCloudflareLogs ::
  "world \<Rightarrow> auth_headers \<Rightarrow> string \<Rightarrow> string \<Rightarrow> string \<Rightarrow> string \<times> event list" where
  "getCloudflareLogs w authHeaders account proj deploymentId =
     (let request = Fetch_logs authHeaders (logs_url account proj deploymentId) in
      case logs_endpoint w (logs_url account proj deploymentId) of
        Logs_network_failure e \<Rightarrow>
          ('''', [request, Console_error (''Failed to fetch Cloudflare logs: '' @ err_message e)])
      | Logs_response ok code text body \<Rightarrow>
          if \<not> ok then
            ('''', [request,
                   Console_error (''Failed to fetch Cloudflare logs - Status code: ''
                                  @ show_nat code @ '' ('' @ text @ '')'')])
          else
            (case body of
               Body_throws e \<Rightarrow>
                 ('''', [request, Console_error (''Failed to fetch Cloudflare logs: '' @ err_message e)])
             | Body_no_data \<Rightarrow> ('''', [request])
             | Body_data lines \<Rightarrow>
                 if length lines > 0 then
                   (fence @ join newline (slice_last 20 lines) @ newline @ fence, [request])
                 else ('''', [request])))"

section \<open>run\<close>

datatype step_result = Next | Return | Throw js_error

datatype outcome =
    Polling            \<comment> \<open>still in the loop when the recorded responses end\<close>
  | Returned           \<comment> \<open>\<open>run\<close> returned\<close>
  | Threw js_error     \<comment> \<open>the promise of \<open>run\<close> rejected\<close>

text \<open>
  \<open>slack.send(text).then(...).catch(...)\<close> on the client built from the webhook: the
  send, and the handler that runs once the promise has settled. Neither handler throws.
\<close>

definition slack_send :: "world \<Rightarrow> string \<Rightarrow> string \<Rightarrow> string \<Rightarrow> event list" where
  "slack_send w webhook text sent =
     Slack_send text #
       (case slack_delivery w webhook text of
          None \<Rightarrow> [Slack_then sent]
        | Some err \<Rightarrow> [Slack_catch (error_toString err)])"

definition failure_text :: "inputs \<Rightarrow> deployment \<Rightarrow> string \<Rightarrow> string" where
  "failure_text i d logs =
     ''Deployment failed for project *'' @ project i @ ''*'' @ newline
       @ ''Commit: '' @ commitUrl i @ newline
       @ ''Actor: *'' @ actor i @ ''*'' @ newline
       @ ''Deployment ID: *'' @ dep_id d @ ''*'' @ newline
       @ ''Logs: '' @ logs @ newline"

definition success_text :: "inputs \<Rightarrow> deployment \<Rightarrow> string \<Rightarrow> string" where
  "success_text i d aliasUrl =
     ''Deployment succeeded for project *'' @ project i @ ''*'' @ newline
       @ ''Commit: '' @ commitUrl i @ newline
       @ ''Actor: *'' @ actor i @ ''*'' @ newline
       @ ''Deployment ID: *'' @ dep_id d @ ''*'' @ newline
       @ ''Alias URL: '' @ aliasUrl @ newline
       @ ''Deployment URL: '' @ url d @ newline
       @ ''<https://dash.cloudflare.com?to=/'' @ accountId i @ ''/pages/view/'' @ project_name d
       @ ''/'' @ dep_id d @ ''|Logs>''"

text \<open>Lines 58-66: the stage tracker.\<close>

definition stage_change ::
  "inputs \<Rightarrow> world \<Rightarrow> deployment \<Rightarrow> run_state \<Rightarrow> js_error option \<times> run_state \<times> event list" where
  "stage_change i w d st =
     (if name (latest_stage d) \<noteq> lastStage st then
        (let st1 = st\<lparr>lastStage := name (latest_stage d)\<rparr>;
             ev = [Console_log (''# Now at stage: '' @ lastStage st1)]
         in if \<not> markedAsInProgress st1 then
              (let (err, st2, ev_up) = updateDeployment i w (githubToken i) d In_progress st1
               in case err of
                    Some e \<Rightarrow> (Some e, st2, ev @ Call_updateDeployment In_progress # ev_up)
                  | None \<Rightarrow>
                      (None, st2\<lparr>markedAsInProgress := True\<rparr>,
                       ev @ Call_updateDeployment In_progress # ev_up))
            else (None, st1, ev))
      else (None, st, []))"

text \<open>Lines 68-87: the body of the generic failure check.\<close>

definition failure_path ::
  "inputs \<Rightarrow> world \<Rightarrow> auth_headers \<Rightarrow> deployment \<Rightarrow> run_state
     \<Rightarrow> step_result \<times> run_state \<times> event list" where
  "failure_path i w authHeaders d st =
     (let st1 = st\<lparr>waiting := False\<rparr>;
          ev_slack =
            (if slackWebHook i \<noteq> '''' then
               (let (logs, ev_logs) = getCloudflareLogs w authHeaders (accountId i) (project i) (dep_id d)
                in ev_logs @ slack_send w (slackWebHook i) (failure_text i d logs)
                     (''Slack message for '' @ name (latest_stage d) @ '' failed pipeline sent!''))
             else []);
          (err, st2, ev_up) = updateDeployment i w (githubToken i) d Failure st1
      in (case err of None \<Rightarrow> Return | Some e \<Rightarrow> Throw e, st2,
          ev_slack
            @ [Set_failed (''Deployment failed on step: '' @ name (latest_stage d) @ ''!''),
               Call_updateDeployment Failure]
            @ ev_up))"

text \<open>Lines 132-160: the body of the deploy check.\<close>

definition deploy_path ::
  "inputs \<Rightarrow> world \<Rightarrow> deployment \<Rightarrow> run_state \<Rightarrow> step_result \<times> run_state \<times> event list" where
  "deploy_path i w d st =
     (let st1 = st\<lparr>waiting := False\<rparr>;
          aliasUrl = (case aliases d of None \<Rightarrow> url d | Some [] \<Rightarrow> url d | Some (a # _) \<Rightarrow> a);
          outputs =
            [Set_output ''id'' (Out_string (dep_id d)),
             Set_output ''environment'' (Out_string (environment d)),
             Set_output ''url'' (Out_string (url d)),
             Set_output ''alias'' (Out_string aliasUrl),
             Set_output ''success'' (Out_bool (status (latest_stage d) = ''success''))];
          ev_slack =
            (if status (latest_stage d) = ''success'' \<and> True then
               slack_send w (slackWebHook i) (success_text i d aliasUrl)
                 ''Slack message for DEPLOYMENT succeeded pipeline sent!''
             else [])
      in if githubToken i \<noteq> '''' then
           (let state = (if status (latest_stage d) = ''success'' then Success else Failure);
                (err, st2, ev_up) = updateDeployment i w (githubToken i) d state st1
            in (case err of None \<Rightarrow> Next | Some e \<Rightarrow> Throw e, st2,
                outputs @ ev_slack @ Call_updateDeployment state # ev_up))
         else (Next, st1, outputs @ ev_slack))"

text \<open>One iteration of \<open>while (waiting)\<close>, given the answer to its poll.\<close>

definition loop_body ::
  "inputs \<Rightarrow> world \<Rightarrow> auth_headers \<Rightarrow> poll_response \<Rightarrow> run_state
     \<Rightarrow> step_result \<times> run_state \<times> event list" where
  "loop_body i w authHeaders response st =
     (let (dep, st1, ev_poll) = pollApi authHeaders (accountId i) (project i) (commitHash i) response st
      in case dep of
           None \<Rightarrow>
             (Next, st1, Sleep # ev_poll @ [Console_log ''Waiting for the deployment to start...''])
         | Some d \<Rightarrow>
             if is_skipped d then
               (Return, st1\<lparr>waiting := False\<rparr>,
                Sleep # ev_poll
                  @ [Console_log (''Deployment skipped '' @ dep_id d @ ''!''),
                     Set_output (''Deployment skipped '' @ dep_id d @ ''!'') Out_undefined])
             else
               (let (err, st2, ev_stage) = stage_change i w d st1
                in case err of
                     Some e \<Rightarrow> (Throw e, st2, Sleep # ev_poll @ ev_stage)
                   | None \<Rightarrow>
                       if status (latest_stage d) = ''failed'' \<or> status (latest_stage d) = ''failure''
                       then
                         (let (r, st3, ev) = failure_path i w authHeaders d st2
                          in (r, st3, Sleep # ev_poll @ ev_stage @ ev))
                       else if name (latest_stage d) = ''deploy''
                               \<and> status (latest_stage d) \<in> set [''success'', ''failed'']
                       then
                         (let (r, st3, ev) = deploy_path i w d st2
                          in (r, st3, Sleep # ev_poll @ ev_stage @ ev))
                       else (Next, st2, Sleep # ev_poll @ ev_stage)))"

text \<open>
  The loop, over the answers the deployment list endpoint gives to the successive polls.
  When the answers end while \<open>waiting\<close> still holds, the run is still polling.
\<close>

fun run_loop ::
  "inputs \<Rightarrow> world \<Rightarrow> auth_headers \<Rightarrow> run_state \<Rightarrow> poll_response list
     \<Rightarrow> outcome \<times> run_state \<times> event list" where
  "run_loop i w authHeaders st [] = (if waiting st then Polling else Returned, st, [])"
| "run_loop i w authHeaders st (r # rs) =
     (if \<not> waiting st then (Returned, st, [])
      else
        case loop_body i w authHeaders r st of
          (Next, st', ev) \<Rightarrow>
            (let (oc, st'', ev') = run_loop i w authHeaders st' rs in (oc, st'', ev @ ev'))
        | (Return, st', ev) \<Rightarrow> (Returned, st', ev)
        | (Throw e, st', ev) \<Rightarrow> (Threw e, st', ev))"

definition input_required :: "string \<Rightarrow> js_error" where
  "input_required n = Js_error ''Error'' (''Input required and not supplied: '' @ n)"

text \<open>
  \<open>run\<close>: \<open>core.getInput\<close> with \<open>required: true\<close> throws when the raw value of the input
  is empty; then the credentials are validated, the headers chosen and the loop entered.
\<close>

definition run :: "inputs \<Rightarrow> world \<Rightarrow> poll_response list \<Rightarrow> outcome \<times> run_state \<times> event list" where
  "run i w responses =
     (if accountId_raw i = '''' then (Threw (input_required ''accountId''), initial_state, [])
      else if project_raw i = '''' then (Threw (input_required ''project''), initial_state, [])
      else
        (let (ok, ev) = validateAuthInputs (apiToken i) (accountEmail i) (apiKey i)
         in if \<not> ok then (Returned, initial_state, ev)
            else
              (let authHeaders =
                     (if apiToken i \<noteq> '''' then Bearer (apiToken i)
                      else Email_key (accountEmail i) (apiKey i));
                   (oc, st, ev') = run_loop i w authHeaders initial_state responses
               in (oc, st, ev @ Console_log ''Waiting for Pages to finish building...'' # ev'))))"

section \<open>Vocabulary of the properties\<close>

text \<open>The events of a run.\<close>

definition trace :: "outcome \<times> run_state \<times> event list \<Rightarrow> event list" where
  "trace r = snd (snd r)"

text \<open>The line the stage tracker logs when the observed stage name changes (line 60).\<close>

definition stage_log :: "string \<Rightarrow> event" where
  "stage_log n = Console_log (''# Now at stage: '' @ n)"

definition in_progress_call :: event where
  "in_progress_call = Call_updateDeployment In_progress"

text \<open>A trace without stage change and without in-progress reflection.\<close>

definition quiet :: "event list \<Rightarrow> bool" where
  "quiet ev \<longleftrightarrow> in_progress_call \<notin> set ev \<and> (\<forall>n. stage_log n \<notin> set ev)"

text \<open>The events of an iteration whose poll finds no deployment.\<close>

definition waiting_events :: "inputs \<Rightarrow> auth_headers \<Rightarrow> event list" where
  "waiting_events i h =
     [Sleep, Fetch_deployments h (deployments_url (accountId i) (project i)),
      Console_log ''Waiting for the deployment to start...'']"

text \<open>A successful listing in which no deployment was triggered by commit \<open>c\<close>.\<close>

definition no_match :: "string \<Rightarrow> poll_response \<Rightarrow> bool" where
  "no_match c r =
     (case r of
        Json_body body \<Rightarrow>
          success body \<and>
          (case result body of
             None \<Rightarrow> True
           | Some ds \<Rightarrow> list_all (\<lambda>d. commit_hash (deployment_trigger d) \<noteq> c) ds)
      | _ \<Rightarrow> False)"

text \<open>The latest stage is \<open>deploy\<close> and its status is \<open>success\<close> or \<open>failed\<close>.\<close>

definition deploy_finished :: "deployment \<Rightarrow> bool" where
  "deploy_finished d \<longleftrightarrow>
     name (latest_stage d) = ''deploy''
     \<and> (status (latest_stage d) = ''success'' \<or> status (latest_stage d) = ''failed'')"

definition is_status_push :: "event \<Rightarrow> bool" where
  "is_status_push e = (case e of Create_deployment_status _ \<Rightarrow> True | _ \<Rightarrow> False)"

definition is_record_creation :: "event \<Rightarrow> bool" where
  "is_record_creation e = (case e of Create_deployment _ \<Rightarrow> True | _ \<Rightarrow> False)"

text \<open>The five outputs of the deploy check (lines 138-142), for a successful deployment.\<close>

definition alias_of :: "deployment \<Rightarrow> string" where
  "alias_of d = (case aliases d of Some (a # _) \<Rightarrow> a | _ \<Rightarrow> url d)"

definition success_outputs :: "deployment \<Rightarrow> event list" where
  "success_outputs d =
     [Set_output ''id'' (Out_string (dep_id d)),
      Set_output ''environment'' (Out_string (environment d)),
      Set_output ''url'' (Out_string (url d)),
      Set_output ''alias'' (Out_string (alias_of d)),
      Set_output ''success'' (Out_bool True)]"

text \<open>What the deploy-success path does and the failure path must not: a trace without
  any of the five outputs, without the success message and without a call of
  \<open>updateDeployment\<close> with \<open>success\<close>.\<close>

definition no_success_path :: "inputs \<Rightarrow> deployment \<Rightarrow> event list \<Rightarrow> bool" where
  "no_success_path i d ev \<longleftrightarrow>
     (\<forall>n v. Set_output n v \<in> set ev \<longrightarrow> n \<notin> set [''id'', ''environment'', ''url'', ''alias'', ''success''])
     \<and> (\<forall>t. Slack_send t \<in> set ev \<longrightarrow> (\<forall>a. t \<noteq> success_text i d a))
     \<and> Call_updateDeployment Success \<notin> set ev"

text \<open>Events that are neither an output, nor a Slack message, nor a final reflection.\<close>

definition routine :: "event \<Rightarrow> bool" where
  "routine e =
     (case e of
        Set_output n v \<Rightarrow> False
      | Slack_send t \<Rightarrow> False
      | Call_updateDeployment s \<Rightarrow> s = In_progress
      | _ \<Rightarrow> True)"

definition is_output :: "event \<Rightarrow> bool" where
  "is_output e = (case e of Set_output n v \<Rightarrow> True | _ \<Rightarrow> False)"

text \<open>A request of the run carries the headers \<open>h\<close>; other events are unconstrained.\<close>

definition sent_with :: "auth_headers \<Rightarrow> event \<Rightarrow> bool" where
  "sent_with h e =
     (case e of
        Fetch_deployments h' u \<Rightarrow> h' = h
      | Fetch_logs h' u \<Rightarrow> h' = h
      | _ \<Rightarrow> True)"

text \<open>The events that reach the source-control system.\<close>

definition reaches_github :: "event \<Rightarrow> bool" where
  "reaches_github e \<longleftrightarrow> is_status_push e \<or> is_record_creation e"

section \<open>Example inputs\<close>

definition example_world :: world where
  "example_world =
     \<lparr>createDeployment = (\<lambda>_. Inr 7), createDeploymentStatus = (\<lambda>_. None),
      logs_endpoint = (\<lambda>_. Logs_response True 200 ''OK'' (Body_data [''a'', ''b''])),
      slack_delivery = (\<lambda>_ _. None)\<rparr>"

definition example_inputs :: inputs where
  "example_inputs =
     \<lparr>accountEmail = '''', apiKey = '''', apiToken = ''tok'',
      accountId_raw = ''acc'', accountId = ''acc'', project_raw = ''site'', project = ''site'',
      githubToken = '''', commitHash = '''', slackWebHook = '''',
      commitUrl = '''', actor = ''me'', repo_owner = ''o'', repo_name = ''r''\<rparr>"

definition example_deployment :: deployment where
  "example_deployment =
     \<lparr>dep_id = ''d1'', project_name = ''site'', environment = ''production'',
      url = ''https://prod.example'', aliases = Some [''https://abc.preview.example''],
      is_skipped = False, latest_stage = \<lparr>name = ''deploy'', status = ''success''\<rparr>,
      deployment_trigger = \<lparr>branch = ''main'', commit_hash = ''abc''\<rparr>\<rparr>"

text \<open>The example deployment at another stage.\<close>

definition at_stage :: "string \<Rightarrow> string \<Rightarrow> deployment" where
  "at_stage n s = example_deployment\<lparr>latest_stage := \<lparr>name = n, status = s\<rparr>\<rparr>"

definition listing :: "deployment list \<Rightarrow> poll_response" where
  "listing ds = Json_body \<lparr>success = True, errors = [], result = Some ds\<rparr>"

definition three_stages :: "poll_response list" where
  "three_stages =
     [listing [at_stage ''queued'' ''active''], listing [at_stage ''build'' ''active''],
      listing [example_deployment]]"

definition skipped_deployment :: deployment where
  "skipped_deployment = example_deployment\<lparr>is_skipped := True\<rparr>"

definition other_commit :: deployment where
  "other_commit = example_deployment\<lparr>deployment_trigger := \<lparr>branch = ''dev'', commit_hash = ''fff''\<rparr>\<rparr>"

definition github_inputs :: inputs where
  "github_inputs = example_inputs\<lparr>githubToken := ''gh'', slackWebHook := ''hook''\<rparr>"

section \<open>Auxiliary facts\<close>

lemma slice_last_suffix: "suffix (slice_last n xs) xs"
  by (simp add: slice_last_def suffix_drop)

lemma slice_last_length: "length (slice_last n xs) = min n (length xs)"
  by (simp add: slice_last_def)

lemma find_first_match:
  "find P xs = Some x \<Longrightarrow> \<exists>pre post. xs = pre @ x # post \<and> P x \<and> (\<forall>y \<in> set pre. \<not> P y)"
proof (induction xs)
  case Nil
  then show ?case by simp
next
  case (Cons a xs)
  show ?case
  proof (cases "P a")
    case True
    with Cons.prems have "x = a" by simp
    with True have "a # xs = [] @ x # xs \<and> P x \<and> (\<forall>y \<in> set []. \<not> P y)" by simp
    then show ?thesis by blast
  next
    case False
    with Cons.prems have "find P xs = Some x" by simp
    from Cons.IH [OF this] obtain pre post
      where "xs = pre @ x # post" "P x" "\<forall>y \<in> set pre. \<not> P y" by blast
    with False have "a # xs = (a # pre) @ x # post \<and> P x \<and> (\<forall>y \<in> set (a # pre). \<not> P y)"
      by simp
    then show ?thesis by blast
  qed
qed

lemma pollApi_listing:
  "success body \<Longrightarrow>
   pollApi h a p c (Json_body body) st =
     (if c = [] then (case result body of None \<Rightarrow> None | Some [] \<Rightarrow> None | Some (d # _) \<Rightarrow> Some d)
      else (case result body of None \<Rightarrow> None
            | Some ds \<Rightarrow> find (\<lambda>d. commit_hash (deployment_trigger d) = c) ds),
      st, [Fetch_deployments h (deployments_url a p)])"
  by (simp add: pollApi_def)

lemma pollApi_Some:
  "fst (pollApi h a p c r st) = Some d \<Longrightarrow>
   pollApi h a p c r st = (Some d, st, [Fetch_deployments h (deployments_url a p)])"
  by (cases r) (auto simp add: pollApi_def Let_def split: if_splits)

lemma loop_body_absent:
  "pollApi h (accountId i) (project i) (commitHash i) r st = (None, st, [Fetch_deployments h (deployments_url (accountId i) (project i))]) \<Longrightarrow>
   loop_body i w h r st = (Next, st, waiting_events i h)"
  by (simp add: loop_body_def waiting_events_def)

lemma find_None_list_all: "find P xs = None \<longleftrightarrow> list_all (\<lambda>x. \<not> P x) xs"
  by (induction xs) auto

lemma pollApi_no_match:
  "c \<noteq> [] \<Longrightarrow> no_match c r \<Longrightarrow>
   pollApi h a p c r st = (None, st, [Fetch_deployments h (deployments_url a p)])"
  by (auto simp add: no_match_def pollApi_listing find_None_list_all
      split: poll_response.splits option.splits)

lemma run_loop_no_match:
  "commitHash i \<noteq> [] \<Longrightarrow> waiting st \<Longrightarrow> list_all (no_match (commitHash i)) rs \<Longrightarrow>
   run_loop i w h st rs = (Polling, st, concat (map (\<lambda>_. waiting_events i h) rs))"
proof (induction rs)
  case Nil
  then show ?case by simp
next
  case (Cons r rs)
  from Cons.prems have "no_match (commitHash i) r" by simp
  with Cons.prems(1) have "loop_body i w h r st = (Next, st, waiting_events i h)"
    by (intro loop_body_absent pollApi_no_match)
  moreover from Cons have "run_loop i w h st rs = (Polling, st, concat (map (\<lambda>_. waiting_events i h) rs))"
    by simp
  ultimately show ?case using Cons.prems(2) by simp
qed

lemma push_status_finished:
  "deploy_finished d \<Longrightarrow> \<exists>args. cs_state args = s \<and> cs_deployment_id args = n \<and> push_status i w d s n = (createDeploymentStatus w args, [Create_deployment_status args])"
  by (auto simp add: push_status_def deploy_finished_def Let_def)

lemma push_status_other:
  "\<not> deploy_finished d \<Longrightarrow> push_status i w d s n = (None, [])"
  by (auto simp add: push_status_def deploy_finished_def)

lemma quiet_Nil [simp]: "quiet []"
  by (simp add: quiet_def)

lemma quiet_append [simp]: "quiet (xs @ ys) \<longleftrightarrow> quiet xs \<and> quiet ys"
  by (auto simp add: quiet_def)

lemma quiet_Cons: "quiet (x # xs) \<longleftrightarrow> x \<noteq> in_progress_call \<and> (\<forall>n. x \<noteq> stage_log n) \<and> quiet xs"
  by (auto simp add: quiet_def)

lemma pollApi_quiet: "quiet (snd (snd (pollApi h a p c r st)))"
  by (cases r) (simp_all add: pollApi_def Let_def case_prod_beta quiet_Cons in_progress_call_def stage_log_def)

lemma pollApi_marked:
  "markedAsInProgress (fst (snd (pollApi h a p c r st))) = markedAsInProgress st"
  by (cases r) (simp_all add: pollApi_def Let_def case_prod_beta)

lemma push_status_quiet: "quiet (snd (push_status i w d s n))"
  by (simp add: push_status_def Let_def case_prod_beta quiet_Cons in_progress_call_def stage_log_def)

lemma updateDeployment_quiet: "quiet (snd (snd (updateDeployment i w t d s st)))"
  using push_status_quiet [of i w d s]
  by (auto simp add: updateDeployment_def Let_def case_prod_beta quiet_Cons in_progress_call_def stage_log_def
      split: option.splits sum.splits)

lemma updateDeployment_marked:
  "markedAsInProgress (fst (snd (updateDeployment i w t d s st))) = markedAsInProgress st"
  by (simp add: updateDeployment_def Let_def case_prod_beta split: option.splits sum.splits)

lemma updateDeployment_lastStage:
  "lastStage (fst (snd (updateDeployment i w t d s st))) = lastStage st"
  by (simp add: updateDeployment_def Let_def case_prod_beta split: option.splits sum.splits)

lemma updateDeployment_waiting:
  "waiting (fst (snd (updateDeployment i w t d s st))) = waiting st"
  by (simp add: updateDeployment_def Let_def case_prod_beta split: option.splits sum.splits)

lemma getCloudflareLogs_quiet: "quiet (snd (getCloudflareLogs w h a p d))"
  by (simp add: getCloudflareLogs_def Let_def case_prod_beta quiet_Cons in_progress_call_def stage_log_def
      split: logs_response.splits logs_body.splits)

lemma slack_send_quiet: "quiet (slack_send w hook text sent)"
  by (simp add: slack_send_def quiet_Cons in_progress_call_def stage_log_def split: option.splits)

lemma failure_path_quiet: "quiet (snd (snd (failure_path i w h d st)))"
  using updateDeployment_quiet [of i w "githubToken i" d Failure "st\<lparr>waiting := False\<rparr>"]
    getCloudflareLogs_quiet [of w h "accountId i" "project i" "dep_id d"]
  by (simp add: failure_path_def Let_def case_prod_beta quiet_Cons in_progress_call_def stage_log_def
      slack_send_quiet)

lemma failure_path_marked:
  "markedAsInProgress (fst (snd (failure_path i w h d st))) = markedAsInProgress st"
  using updateDeployment_marked [of i w "githubToken i" d Failure "st\<lparr>waiting := False\<rparr>"]
  by (simp add: failure_path_def Let_def case_prod_beta)

lemma deploy_path_quiet: "quiet (snd (snd (deploy_path i w d st)))"
  using updateDeployment_quiet [of i w "githubToken i" d Success "st\<lparr>waiting := False\<rparr>"]
    updateDeployment_quiet [of i w "githubToken i" d Failure "st\<lparr>waiting := False\<rparr>"]
  by (simp add: deploy_path_def Let_def case_prod_beta quiet_Cons in_progress_call_def stage_log_def
      slack_send_quiet)

lemma deploy_path_marked:
  "markedAsInProgress (fst (snd (deploy_path i w d st))) = markedAsInProgress st"
  using updateDeployment_marked [of i w "githubToken i" d Success "st\<lparr>waiting := False\<rparr>"]
    updateDeployment_marked [of i w "githubToken i" d Failure "st\<lparr>waiting := False\<rparr>"]
  by (simp add: deploy_path_def Let_def case_prod_beta)

text \<open>The three shapes of the stage tracker's events.\<close>

lemma stage_change_cases:
  assumes "stage_change i w d st = (err, st', ev)"
  shows "(ev = [] \<and> st' = st \<and> err = None)
       \<or> (markedAsInProgress st \<and> markedAsInProgress st' \<and> err = None \<and> in_progress_call \<notin> set ev)
       \<or> (\<not> markedAsInProgress st \<and> (err = None \<longrightarrow> markedAsInProgress st')
            \<and> (\<exists>post. ev = stage_log (name (latest_stage d)) # in_progress_call # post \<and> quiet post))"
proof (cases "name (latest_stage d) = lastStage st")
  case True
  with assms show ?thesis by (simp add: stage_change_def)
next
  case changed: False
  let ?st1 = "st\<lparr>lastStage := name (latest_stage d)\<rparr>"
  show ?thesis
  proof (cases "markedAsInProgress st")
    case True
    with changed assms show ?thesis
      by (auto simp add: stage_change_def Let_def case_prod_beta in_progress_call_def)
  next
    case False
    obtain e st2 ev_up where up: "updateDeployment i w (githubToken i) d In_progress ?st1 = (e, st2, ev_up)"
      by (cases "updateDeployment i w (githubToken i) d In_progress ?st1") auto
    from updateDeployment_quiet [of i w "githubToken i" d In_progress ?st1] up
    have q: "quiet ev_up" by simp
    from changed False assms up q show ?thesis
      by (cases e) (auto simp add: stage_change_def Let_def case_prod_beta in_progress_call_def stage_log_def)
  qed
qed

lemma loop_body_tail:
  assumes "loop_body i w h r st = (res, st', ev)"
    and "pollApi h (accountId i) (project i) (commitHash i) r st = (Some d, st1, ev_poll)"
    and "\<not> is_skipped d"
    and "stage_change i w d st1 = (err, st2, ev_stage)"
  shows "\<exists>ev_rest. ev = Sleep # ev_poll @ ev_stage @ ev_rest \<and> quiet ev_rest
           \<and> markedAsInProgress st' = markedAsInProgress st2 \<and> (err \<noteq> None \<longrightarrow> res \<noteq> Next)"
proof (cases err)
  case (Some e)
  with assms have "ev = Sleep # ev_poll @ ev_stage @ []" "markedAsInProgress st' = markedAsInProgress st2"
    "res \<noteq> Next"
    by (auto simp add: loop_body_def)
  then show ?thesis using quiet_Nil by blast
next
  case None
  let ?fp = "failure_path i w h d st2" and ?dp = "deploy_path i w d st2"
  from assms(2-4) None have body: "loop_body i w h r st =
      (if status (latest_stage d) = ''failed'' \<or> status (latest_stage d) = ''failure''
       then (fst ?fp, fst (snd ?fp), Sleep # ev_poll @ ev_stage @ snd (snd ?fp))
       else if name (latest_stage d) = ''deploy''
               \<and> status (latest_stage d) \<in> set [''success'', ''failed'']
       then (fst ?dp, fst (snd ?dp), Sleep # ev_poll @ ev_stage @ snd (snd ?dp))
       else (Next, st2, Sleep # ev_poll @ ev_stage @ []))"
    by (simp add: loop_body_def case_prod_beta)
  consider (failed) "status (latest_stage d) = ''failed'' \<or> status (latest_stage d) = ''failure''"
    | (deploy) "\<not> (status (latest_stage d) = ''failed'' \<or> status (latest_stage d) = ''failure'')"
        "name (latest_stage d) = ''deploy'' \<and> status (latest_stage d) \<in> set [''success'', ''failed'']"
    | (other) "\<not> (status (latest_stage d) = ''failed'' \<or> status (latest_stage d) = ''failure'')"
        "\<not> (name (latest_stage d) = ''deploy'' \<and> status (latest_stage d) \<in> set [''success'', ''failed''])"
    by blast
  then show ?thesis
  proof cases
    case failed
    with body assms(1) have "ev = Sleep # ev_poll @ ev_stage @ snd (snd ?fp)" "st' = fst (snd ?fp)"
      by simp_all
    with None failure_path_quiet [of i w h d st2] failure_path_marked [of i w h d st2]
    show ?thesis by blast
  next
    case deploy
    with body assms(1) have "ev = Sleep # ev_poll @ ev_stage @ snd (snd ?dp)" "st' = fst (snd ?dp)"
      by simp_all
    with None deploy_path_quiet [of i w d st2] deploy_path_marked [of i w d st2]
    show ?thesis by blast
  next
    case other
    with body assms(1) have "ev = Sleep # ev_poll @ ev_stage @ []" "st' = st2"
      by (auto split: if_splits)
    with None quiet_Nil show ?thesis by blast
  qed
qed

lemma loop_body_cases:
  assumes "loop_body i w h r st = (res, st', ev)"
  shows "(quiet ev \<and> markedAsInProgress st' = markedAsInProgress st)
       \<or> (markedAsInProgress st \<and> markedAsInProgress st' \<and> in_progress_call \<notin> set ev)
       \<or> (\<not> markedAsInProgress st \<and> (res = Next \<longrightarrow> markedAsInProgress st')
            \<and> (\<exists>pre n post. ev = pre @ stage_log n # in_progress_call # post \<and> quiet pre \<and> quiet post))"
proof -
  obtain dep st1 ev_poll
    where p: "pollApi h (accountId i) (project i) (commitHash i) r st = (dep, st1, ev_poll)"
    by (cases "pollApi h (accountId i) (project i) (commitHash i) r st") auto
  from pollApi_quiet [of h "accountId i" "project i" "commitHash i" r st] p
  have qp: "quiet (Sleep # ev_poll)"
    by (simp add: quiet_Cons in_progress_call_def stage_log_def)
  from pollApi_marked [of h "accountId i" "project i" "commitHash i" r st] p
  have m1: "markedAsInProgress st1 = markedAsInProgress st" by simp
  show ?thesis
  proof (cases dep)
    case None
    with assms p qp m1 show ?thesis
      by (auto simp add: loop_body_def quiet_Cons in_progress_call_def stage_log_def)
  next
    case (Some d)
    show ?thesis
    proof (cases "is_skipped d")
      case True
      with Some assms p qp m1 show ?thesis
        by (auto simp add: loop_body_def quiet_Cons in_progress_call_def stage_log_def)
    next
      case False
      obtain err st2 ev_stage where sc: "stage_change i w d st1 = (err, st2, ev_stage)"
        by (cases "stage_change i w d st1") auto
      from loop_body_tail [OF assms p [unfolded Some] False sc]
      obtain ev_rest where ev: "ev = Sleep # ev_poll @ ev_stage @ ev_rest" and qr: "quiet ev_rest"
        and m: "markedAsInProgress st' = markedAsInProgress st2"
        and thrown: "err \<noteq> None \<longrightarrow> res \<noteq> Next" by blast
      from stage_change_cases [OF sc]
      consider (same) "ev_stage = []" "st2 = st1"
        | (later) "markedAsInProgress st1" "markedAsInProgress st2" "in_progress_call \<notin> set ev_stage"
        | (first) post where "\<not> markedAsInProgress st1" "err = None \<longrightarrow> markedAsInProgress st2"
            "ev_stage = stage_log (name (latest_stage d)) # in_progress_call # post" "quiet post"
        by blast
      then show ?thesis
      proof cases
        case same
        with ev qr qp m m1 show ?thesis by (simp add: quiet_Cons)
      next
        case later
        with ev qr qp m m1 show ?thesis by (auto simp add: quiet_def)
      next
        case first
        from first(3) ev have "ev = (Sleep # ev_poll) @ stage_log (name (latest_stage d))
                                  # in_progress_call # (post @ ev_rest)"
          by simp
        moreover from first(4) qr have "quiet (post @ ev_rest)" by simp
        moreover from first(2) thrown m have "res = Next \<longrightarrow> markedAsInProgress st'" by auto
        ultimately show ?thesis using first(1) m1 qp by blast
      qed
    qed
  qed
qed

lemma run_loop_marked:
  "markedAsInProgress st \<Longrightarrow> run_loop i w h st rs = (oc, st', ev) \<Longrightarrow>
   in_progress_call \<notin> set ev \<and> markedAsInProgress st'"
proof (induction rs arbitrary: st oc st' ev)
  case Nil
  then show ?case by auto
next
  case (Cons r rs)
  show ?case
  proof (cases "waiting st")
    case False
    with Cons.prems show ?thesis by auto
  next
    case True
    obtain res st1 ev1 where b: "loop_body i w h r st = (res, st1, ev1)"
      by (cases "loop_body i w h r st") auto
    from loop_body_cases [OF b] Cons.prems(1)
    have s1: "in_progress_call \<notin> set ev1" "markedAsInProgress st1"
      by (auto simp add: quiet_def)
    show ?thesis
    proof (cases res)
      case Next
      obtain oc2 st2 ev2 where l: "run_loop i w h st1 rs = (oc2, st2, ev2)"
        by (cases "run_loop i w h st1 rs") auto
      from Cons.IH [OF s1(2) l] have "in_progress_call \<notin> set ev2" "markedAsInProgress st2"
        by simp_all
      with Cons.prems(2) True b Next l s1 show ?thesis by auto
    next
      case Return
      with Cons.prems(2) True b s1 show ?thesis by auto
    next
      case (Throw e)
      with Cons.prems(2) True b s1 show ?thesis by auto
    qed
  qed
qed

lemma run_loop_unmarked:
  "\<not> markedAsInProgress st \<Longrightarrow> run_loop i w h st rs = (oc, st', ev) \<Longrightarrow>
   quiet ev \<or> (\<exists>pre n post. ev = pre @ stage_log n # in_progress_call # post
                  \<and> quiet pre \<and> in_progress_call \<notin> set post)"
proof (induction rs arbitrary: st oc st' ev)
  case Nil
  then show ?case by auto
next
  case (Cons r rs)
  show ?case
  proof (cases "waiting st")
    case False
    with Cons.prems show ?thesis by auto
  next
    case True
    obtain res st1 ev1 where b: "loop_body i w h r st = (res, st1, ev1)"
      by (cases "loop_body i w h r st") auto
    obtain oc2 st2 ev2 where l: "run_loop i w h st1 rs = (oc2, st2, ev2)"
      by (cases "run_loop i w h st1 rs") auto
    from Cons.prems(2) True b l have ev: "ev = ev1 @ (if res = Next then ev2 else [])"
      by (cases res) auto
    from loop_body_cases [OF b] Cons.prems(1)
    consider (none) "quiet ev1" "\<not> markedAsInProgress st1"
      | (first) pre n post where "res = Next \<longrightarrow> markedAsInProgress st1"
          "ev1 = pre @ stage_log n # in_progress_call # post" "quiet pre" "quiet post"
      by blast
    then show ?thesis
    proof cases
      case none
      show ?thesis
      proof (cases "res = Next")
        case False
        with ev none show ?thesis by simp
      next
        case True
        from Cons.IH [OF none(2) l]
        consider "quiet ev2"
          | pre n post where "ev2 = pre @ stage_log n # in_progress_call # post" "quiet pre"
              "in_progress_call \<notin> set post"
          by blast
        then show ?thesis
        proof cases
          case 1
          with True ev none show ?thesis by simp
        next
          case 2
          with True ev have "ev = (ev1 @ pre) @ stage_log n # in_progress_call # post" by simp
          moreover from 2 none have "quiet (ev1 @ pre)" by simp
          ultimately show ?thesis using 2(3) by blast
        qed
      qed
    next
      case first
      have "in_progress_call \<notin> set (if res = Next then ev2 else [])"
        using first(1) run_loop_marked [OF _ l] by auto
      with first(4) have "in_progress_call \<notin> set (post @ (if res = Next then ev2 else []))"
        by (simp add: quiet_def)
      moreover from ev first(2)
      have "ev = pre @ stage_log n # in_progress_call # (post @ (if res = Next then ev2 else []))"
        by simp
      ultimately show ?thesis using first(3) by blast
    qed
  qed
qed

lemma run_shape:
  assumes "run i w rs = (oc, st', ev)"
  shows "quiet ev \<or> (\<exists>pre n post. ev = pre @ stage_log n # in_progress_call # post
                  \<and> quiet pre \<and> in_progress_call \<notin> set post)"
proof (cases "accountId_raw i = [] \<or> project_raw i = []
              \<or> \<not> fst (validateAuthInputs (apiToken i) (accountEmail i) (apiKey i))")
  case True
  with assms have "ev = [] \<or> ev = [Set_failed auth_failure_message]"
    by (auto simp add: run_def validateAuthInputs_def split: if_splits)
  then show ?thesis by (auto simp add: quiet_Cons in_progress_call_def stage_log_def)
next
  case False
  let ?h = "if apiToken i \<noteq> [] then Bearer (apiToken i) else Email_key (accountEmail i) (apiKey i)"
  obtain oc2 st2 ev2 where l: "run_loop i w ?h initial_state rs = (oc2, st2, ev2)"
    by (cases "run_loop i w ?h initial_state rs") auto
  from False assms l have ev: "ev = [Console_log ''Waiting for Pages to finish building...''] @ ev2"
    by (auto simp add: run_def validateAuthInputs_def split: if_splits)
  have q: "quiet [Console_log ''Waiting for Pages to finish building...'']"
    by (simp add: quiet_Cons in_progress_call_def stage_log_def)
  have "\<not> markedAsInProgress initial_state" by (simp add: initial_state_def)
  from run_loop_unmarked [OF this l]
  consider "quiet ev2"
    | pre n post where "ev2 = pre @ stage_log n # in_progress_call # post" "quiet pre"
        "in_progress_call \<notin> set post"
    by blast
  then show ?thesis
  proof cases
    case 1
    with ev q show ?thesis by (simp add: quiet_Cons)
  next
    case 2
    with ev have "ev = ([Console_log ''Waiting for Pages to finish building...''] @ pre)
                        @ stage_log n # in_progress_call # post" by simp
    moreover from q 2 have "quiet ([Console_log ''Waiting for Pages to finish building...''] @ pre)"
      by (simp add: quiet_Cons)
    ultimately show ?thesis using 2(3) by blast
  qed
qed

lemma routine_simps [simp]:
  "\<not> routine (Set_output n v)" "\<not> routine (Slack_send t)"
  "\<not> routine (Call_updateDeployment Success)" "\<not> routine (Call_updateDeployment Failure)"
  by (simp_all add: routine_def)

lemma routine_no_success_path:
  assumes "list_all routine ev"
  shows "no_success_path i d ev"
proof -
  from assms have r: "\<And>e. e \<in> set ev \<Longrightarrow> routine e" by (simp add: list_all_iff)
  have "Set_output n v \<notin> set ev" for n v using r [of "Set_output n v"] by auto
  moreover have "Slack_send t \<notin> set ev" for t using r [of "Slack_send t"] by auto
  moreover have "Call_updateDeployment Success \<notin> set ev"
    using r [of "Call_updateDeployment Success"] by auto
  ultimately show ?thesis by (simp add: no_success_path_def)
qed

lemma no_success_path_append [simp]:
  "no_success_path i d (xs @ ys) \<longleftrightarrow> no_success_path i d xs \<and> no_success_path i d ys"
  unfolding no_success_path_def set_append by blast

lemma push_status_plain: "list_all routine (snd (push_status i w d s n))"
  by (simp add: push_status_def Let_def routine_def)

lemma updateDeployment_plain: "list_all routine (snd (snd (updateDeployment i w t d s st)))"
  by (simp add: updateDeployment_def Let_def case_prod_beta push_status_plain routine_def
      split: option.splits sum.splits)

lemma getCloudflareLogs_plain: "list_all routine (snd (getCloudflareLogs w h a p d))"
  by (simp add: getCloudflareLogs_def Let_def routine_def
      split: logs_response.splits logs_body.splits)

lemma stage_change_plain: "list_all routine (snd (snd (stage_change i w d st)))"
  by (simp add: stage_change_def Let_def case_prod_beta updateDeployment_plain routine_def
      split: option.splits)

lemma failure_text_not_success: "failure_text i d l \<noteq> success_text i' d' a"
  by (simp add: failure_text_def success_text_def)

lemma slack_failure_no_success_path:
  "no_success_path i d (slack_send w hook (failure_text i d l) sent)"
  by (auto simp add: slack_send_def no_success_path_def failure_text_not_success split: option.splits)

lemma run_loop_halted: "\<not> waiting st \<Longrightarrow> run_loop i w h st rs = (Returned, st, [])"
  by (cases rs) simp_all

text \<open>The body of the generic failure check.\<close>

lemma no_success_path_Nil [simp]: "no_success_path i d []"
  by (simp add: no_success_path_def)

lemma no_success_path_failed:
  "no_success_path i d [Set_failed m, Call_updateDeployment Failure]"
  by (simp add: no_success_path_def)

lemma failure_path_events:
  "\<exists>res st' ev.
     failure_path i w h d st = (res, st', ev) \<and> res \<noteq> Next \<and> \<not> waiting st'
     \<and> no_success_path i d ev
     \<and> Set_failed (''Deployment failed on step: '' @ name (latest_stage d) @ ''!'') \<in> set ev
     \<and> Call_updateDeployment Failure \<in> set ev
     \<and> (slackWebHook i \<noteq> [] \<longrightarrow>
          Slack_send (failure_text i d (fst (getCloudflareLogs w h (accountId i) (project i) (dep_id d))))
            \<in> set ev)"
proof -
  define up where "up = updateDeployment i w (githubToken i) d Failure (st\<lparr>waiting := False\<rparr>)"
  define logs where "logs = getCloudflareLogs w h (accountId i) (project i) (dep_id d)"
  define sent where "sent = ''Slack message for '' @ name (latest_stage d) @ '' failed pipeline sent!''"
  define slack where "slack = (if slackWebHook i \<noteq> [] then
                  snd logs @ slack_send w (slackWebHook i) (failure_text i d (fst logs)) sent else [])"
  define failed where "failed = [Set_failed (''Deployment failed on step: '' @ name (latest_stage d) @ ''!''),
               Call_updateDeployment Failure]"
  have eq: "failure_path i w h d st
              = (case fst up of None \<Rightarrow> Return | Some e \<Rightarrow> Throw e, fst (snd up),
                 slack @ failed @ snd (snd up))"
    by (simp add: failure_path_def Let_def case_prod_beta up_def logs_def slack_def failed_def sent_def)
  have "no_success_path i d slack"
  proof (cases "slackWebHook i = []")
    case True
    then show ?thesis by (simp add: slack_def)
  next
    case False
    with getCloudflareLogs_plain [of w h "accountId i" "project i" "dep_id d"] show ?thesis
      by (simp add: slack_def logs_def routine_no_success_path slack_failure_no_success_path)
  qed
  moreover have "no_success_path i d failed"
    by (simp add: failed_def no_success_path_failed)
  moreover have "no_success_path i d (snd (snd up))"
    using updateDeployment_plain [of i w "githubToken i" d Failure "st\<lparr>waiting := False\<rparr>"]
    by (simp add: routine_no_success_path up_def)
  ultimately have "no_success_path i d (slack @ failed @ snd (snd up))"
    by (simp only: no_success_path_append)
  have "(case fst up of None \<Rightarrow> Return | Some e \<Rightarrow> Throw e) \<noteq> Next"
    by (simp split: option.splits)
  moreover have "\<not> waiting (fst (snd up))"
    by (simp add: updateDeployment_waiting up_def)
  moreover note \<open>no_success_path i d (slack @ failed @ snd (snd up))\<close>
  moreover have "Set_failed (''Deployment failed on step: '' @ name (latest_stage d) @ ''!'')
                   \<in> set (slack @ failed @ snd (snd up))"
    "Call_updateDeployment Failure \<in> set (slack @ failed @ snd (snd up))"
    by (simp_all add: failed_def)
  moreover have "slackWebHook i \<noteq> [] \<longrightarrow>
                   Slack_send (failure_text i d (fst logs)) \<in> set (slack @ failed @ snd (snd up))"
    by (simp add: slack_send_def slack_def)
  ultimately show ?thesis unfolding eq logs_def by blast
qed

lemma routine_not_output: "routine e \<Longrightarrow> \<not> is_output e"
  by (cases e) (simp_all add: is_output_def)

lemma routine_no_outputs: "list_all routine ev \<Longrightarrow> list_all (\<lambda>e. \<not> is_output e) ev"
  by (simp add: list_all_iff routine_not_output)

lemma slack_send_no_outputs: "list_all (\<lambda>e. \<not> is_output e) (slack_send w hook text sent)"
  by (simp add: slack_send_def is_output_def split: option.splits)

text \<open>The body of the deploy check, for a successful deployment.\<close>

lemma deploy_path_success:
  assumes "status (latest_stage d) = ''success''"
  shows "\<exists>res st' after.
           deploy_path i w d st = (res, st', success_outputs d @ after)
           \<and> res \<noteq> Return \<and> \<not> waiting st' \<and> list_all (\<lambda>e. \<not> is_output e) after"
proof -
  define up where "up = updateDeployment i w (githubToken i) d Success (st\<lparr>waiting := False\<rparr>)"
  define slack where "slack = slack_send w (slackWebHook i) (success_text i d (alias_of d))
                 ''Slack message for DEPLOYMENT succeeded pipeline sent!''"
  have al: "(case aliases d of None \<Rightarrow> url d | Some [] \<Rightarrow> url d | Some (a # x) \<Rightarrow> a) = alias_of d"
    by (simp add: alias_of_def split: option.splits list.splits)
  have s: "list_all (\<lambda>e. \<not> is_output e) slack"
    by (simp add: slack_def slack_send_no_outputs)
  show ?thesis
  proof (cases "githubToken i = []")
    case True
    with assms have "deploy_path i w d st = (Next, st\<lparr>waiting := False\<rparr>, success_outputs d @ slack)"
      by (simp add: deploy_path_def Let_def al success_outputs_def slack_def)
    with s show ?thesis by auto
  next
    case False
    with assms have "deploy_path i w d st =
        (case fst up of None \<Rightarrow> Next | Some e \<Rightarrow> Throw e, fst (snd up),
         success_outputs d @ (slack @ Call_updateDeployment Success # snd (snd up)))"
      by (simp add: deploy_path_def Let_def case_prod_beta al success_outputs_def slack_def up_def)
    moreover have "(case fst up of None \<Rightarrow> Next | Some e \<Rightarrow> Throw e) \<noteq> Return"
      by (simp split: option.splits)
    moreover have "\<not> waiting (fst (snd up))"
      by (simp add: updateDeployment_waiting up_def)
    moreover have "list_all (\<lambda>e. \<not> is_output e) (slack @ Call_updateDeployment Success # snd (snd up))"
      using s routine_no_outputs [OF updateDeployment_plain [of i w "githubToken i" d Success "st\<lparr>waiting := False\<rparr>"]]
      by (simp add: up_def is_output_def)
    ultimately show ?thesis by blast
  qed
qed

text \<open>What a failed poll does to the loop.\<close>

lemma network_failure_continues:
  "loop_body i w h (Network_failure e) st =
     (Next, st,
      [Sleep, Fetch_deployments h (deployments_url (accountId i) (project i)),
       Core_error (''Failed to send request to CF API - network issue? '' @ err_message e),
       Set_failed (error_toString e),
       Console_log ''Waiting for the deployment to start...''])"
  by (simp add: loop_body_def pollApi_def)

lemma not_json_continues:
  "loop_body i w h (Not_json code msg e) st =
     (Next, st,
      [Sleep, Fetch_deployments h (deployments_url (accountId i) (project i)),
       Core_error (''CF API did not return a JSON (possibly down?) - Status code: ''
                   @ show_nat code @ '' ('' @ msg @ '')''),
       Set_failed (error_toString e),
       Console_log ''Waiting for the deployment to start...''])"
  by (simp add: loop_body_def pollApi_def)

lemma api_error_halts:
  assumes "waiting st" and "\<not> success body"
  shows "run_loop i w h st (Json_body body # rs) =
     (Returned, st\<lparr>waiting := False\<rparr>,
      [Sleep, Fetch_deployments h (deployments_url (accountId i) (project i)),
       Set_failed (''Failed to check deployment status! Error: ''
                   @ (case errors body of [] \<Rightarrow> unknown_error | err # _ \<Rightarrow> err)),
       Console_log ''Waiting for the deployment to start...''])"
proof -
  from assms(2) have "loop_body i w h (Json_body body) st =
     (Next, st\<lparr>waiting := False\<rparr>,
      [Sleep, Fetch_deployments h (deployments_url (accountId i) (project i)),
       Set_failed (''Failed to check deployment status! Error: ''
                   @ (case errors body of [] \<Rightarrow> unknown_error | err # _ \<Rightarrow> err)),
       Console_log ''Waiting for the deployment to start...''])"
    by (simp add: loop_body_def pollApi_def)
  with assms(1) run_loop_halted [of "st\<lparr>waiting := False\<rparr>" i w h rs] show ?thesis
    by simp
qed

text \<open>The failure path sends nothing when no webhook is configured.\<close>

lemma failure_path_without_webhook:
  assumes "slackWebHook i = []"
  shows "Slack_send t \<notin> set (snd (snd (failure_path i w h d st)))"
proof -
  from assms have "snd (snd (failure_path i w h d st)) =
      [Set_failed (''Deployment failed on step: '' @ name (latest_stage d) @ ''!''),
       Call_updateDeployment Failure]
      @ snd (snd (updateDeployment i w (githubToken i) d Failure (st\<lparr>waiting := False\<rparr>)))"
    by (simp add: failure_path_def Let_def case_prod_beta)
  moreover have "Slack_send t \<notin> set (snd (snd (updateDeployment i w (githubToken i) d Failure
                    (st\<lparr>waiting := False\<rparr>))))"
    using updateDeployment_plain [of i w "githubToken i" d Failure "st\<lparr>waiting := False\<rparr>"]
      routine_simps(2) [of t]
    unfolding list_all_iff by blast
  ultimately show ?thesis by simp
qed

text \<open>The equations that evaluate a run on concrete inputs.\<close>

lemmas model_defs =
  run_def run_loop.simps loop_body_def pollApi_def stage_change_def failure_path_def deploy_path_def
  updateDeployment_def push_status_def getCloudflareLogs_def slack_send_def validateAuthInputs_def
  initial_state_def Let_def

lemmas example_defs =
  example_world_def example_inputs_def example_deployment_def at_stage_def listing_def
  three_stages_def skipped_deployment_def other_commit_def github_inputs_def

lemma show_nat_502: "show_nat 502 = ''502''"
  by code_simp

text \<open>The headers of the requests of a run.\<close>

lemma pollApi_sent_with: "list_all (sent_with h) (snd (snd (pollApi h a p c r st)))"
  by (cases r) (simp_all add: pollApi_def Let_def sent_with_def)

lemma push_status_sent_with: "list_all (sent_with h) (snd (push_status i w d s n))"
  by (simp add: push_status_def Let_def sent_with_def)

lemma updateDeployment_sent_with:
  "list_all (sent_with h) (snd (snd (updateDeployment i w t d s st)))"
  by (simp add: updateDeployment_def Let_def case_prod_beta push_status_sent_with sent_with_def
      split: option.splits sum.splits)

lemma getCloudflareLogs_sent_with: "list_all (sent_with h) (snd (getCloudflareLogs w h a p d))"
  by (simp add: getCloudflareLogs_def Let_def sent_with_def
      split: logs_response.splits logs_body.splits)

lemma slack_send_sent_with: "list_all (sent_with h) (slack_send w hook text sent)"
  by (simp add: slack_send_def sent_with_def split: option.splits)

lemma stage_change_sent_with: "list_all (sent_with h) (snd (snd (stage_change i w d st)))"
  by (simp add: stage_change_def Let_def case_prod_beta updateDeployment_sent_with sent_with_def
      split: option.splits)

lemma failure_path_sent_with: "list_all (sent_with h) (snd (snd (failure_path i w h d st)))"
  by (simp add: failure_path_def Let_def case_prod_beta updateDeployment_sent_with
      getCloudflareLogs_sent_with slack_send_sent_with sent_with_def)

lemma deploy_path_sent_with: "list_all (sent_with h) (snd (snd (deploy_path i w d st)))"
  by (simp add: deploy_path_def Let_def case_prod_beta updateDeployment_sent_with
      slack_send_sent_with sent_with_def)

lemma loop_body_sent_with: "list_all (sent_with h) (snd (snd (loop_body i w h r st)))"
  using pollApi_sent_with [of h "accountId i" "project i" "commitHash i" r st]
  by (simp add: loop_body_def Let_def case_prod_beta stage_change_sent_with
      failure_path_sent_with deploy_path_sent_with sent_with_def split: option.splits)

lemma run_loop_sent_with: "list_all (sent_with h) (snd (snd (run_loop i w h st rs)))"
proof (induction rs arbitrary: st)
  case Nil
  show ?case by simp
next
  case (Cons r rs)
  obtain res st1 ev1 where b: "loop_body i w h r st = (res, st1, ev1)"
    by (cases "loop_body i w h r st") auto
  with loop_body_sent_with [of h i w r st] have e: "list_all (sent_with h) ev1" by simp
  show ?case
  proof (cases res)
    case Next
    with b e Cons.IH [of st1] show ?thesis by (simp add: case_prod_beta)
  next
    case Return
    with b e show ?thesis by simp
  next
    case (Throw x)
    with b e show ?thesis by simp
  qed
qed

text \<open>Every iteration starts with the sleep and the request.\<close>

lemma pollApi_starts:
  "\<exists>rest. snd (snd (pollApi h a p c r st)) = Fetch_deployments h (deployments_url a p) # rest"
  by (cases r) (simp_all add: pollApi_def Let_def)

lemma loop_body_starts:
  "\<exists>rest. snd (snd (loop_body i w h r st))
           = Sleep # Fetch_deployments h (deployments_url (accountId i) (project i)) # rest"
proof -
  from pollApi_starts [of h "accountId i" "project i" "commitHash i" r st] obtain rest where
    "snd (snd (pollApi h (accountId i) (project i) (commitHash i) r st))
       = Fetch_deployments h (deployments_url (accountId i) (project i)) # rest" by blast
  then show ?thesis
    by (simp add: loop_body_def Let_def case_prod_beta split: option.splits)
qed

lemma run_loop_starts:
  assumes "waiting st"
  shows "\<exists>rest. snd (snd (run_loop i w h st (r # rs)))
           = Sleep # Fetch_deployments h (deployments_url (accountId i) (project i)) # rest"
proof -
  obtain res st1 ev1 where b: "loop_body i w h r st = (res, st1, ev1)"
    by (cases "loop_body i w h r st") auto
  with loop_body_starts [of i w h r st] obtain rest where
    "ev1 = Sleep # Fetch_deployments h (deployments_url (accountId i) (project i)) # rest"
    by auto
  with b assms show ?thesis by (cases res) (simp_all add: case_prod_beta)
qed

text \<open>The run, once the required inputs are supplied and the credentials accepted.\<close>

lemma run_with_headers:
  assumes "accountId_raw i \<noteq> []" and "project_raw i \<noteq> []"
    and "fst (validateAuthInputs (apiToken i) (accountEmail i) (apiKey i))"
  shows "trace (run i w rs) =
           Console_log ''Waiting for Pages to finish building...''
           # snd (snd (run_loop i w (if apiToken i \<noteq> [] then Bearer (apiToken i)
                                       else Email_key (accountEmail i) (apiKey i))
                         initial_state rs))"
  using assms by (auto simp add: run_def trace_def validateAuthInputs_def case_prod_beta Let_def
      split: if_splits)

lemma run_requests:
  assumes "accountId_raw i \<noteq> []" and "project_raw i \<noteq> []"
    and "fst (validateAuthInputs (apiToken i) (accountEmail i) (apiKey i))"
    and "h = (if apiToken i \<noteq> [] then Bearer (apiToken i) else Email_key (accountEmail i) (apiKey i))"
  shows "list_all (sent_with h) (trace (run i w rs))
       \<and> (rs \<noteq> [] \<longrightarrow>
            take 3 (trace (run i w rs))
              = [Console_log ''Waiting for Pages to finish building...'', Sleep,
                 Fetch_deployments h (deployments_url (accountId i) (project i))])"
proof
  from run_with_headers [OF assms(1-3)] assms(4) have t: "trace (run i w rs) =
       Console_log ''Waiting for Pages to finish building...''
         # snd (snd (run_loop i w h initial_state rs))" by simp
  with run_loop_sent_with [of h i w initial_state rs]
  show "list_all (sent_with h) (trace (run i w rs))" by (simp add: sent_with_def)
  show "rs \<noteq> [] \<longrightarrow>
            take 3 (trace (run i w rs))
              = [Console_log ''Waiting for Pages to finish building...'', Sleep,
                 Fetch_deployments h (deployments_url (accountId i) (project i))]"
  proof
    assume "rs \<noteq> []"
    then obtain r rs' where "rs = r # rs'" by (cases rs) auto
    moreover have "waiting initial_state" by (simp add: initial_state_def)
    from run_loop_starts [OF this, of i w h r rs'] obtain rest where
      "snd (snd (run_loop i w h initial_state (r # rs')))
         = Sleep # Fetch_deployments h (deployments_url (accountId i) (project i)) # rest"
      by blast
    ultimately show "take 3 (trace (run i w rs))
              = [Console_log ''Waiting for Pages to finish building...'', Sleep,
                 Fetch_deployments h (deployments_url (accountId i) (project i))]"
      using t by simp
  qed
qed

text \<open>What the failure path sends to the source-control system.\<close>

lemma reaches_github_simps [simp]:
  "reaches_github (Create_deployment a)" "reaches_github (Create_deployment_status b)"
  "\<not> reaches_github Sleep" "\<not> reaches_github (Fetch_deployments h u)"
  "\<not> reaches_github (Fetch_logs h u)" "\<not> reaches_github (Console_log s)"
  "\<not> reaches_github (Console_error s)" "\<not> reaches_github (Core_error s)"
  "\<not> reaches_github (Set_failed s)" "\<not> reaches_github (Set_output n v)"
  "\<not> reaches_github (Call_updateDeployment g)" "\<not> reaches_github (Slack_send s)"
  "\<not> reaches_github (Slack_then s)" "\<not> reaches_github (Slack_catch s)"
  by (simp_all add: reaches_github_def is_status_push_def is_record_creation_def)

lemma is_status_push_simps [simp]:
  "is_status_push (Create_deployment_status b)" "\<not> is_status_push (Create_deployment a)"
  "\<not> is_status_push Sleep" "\<not> is_status_push (Fetch_deployments h u)"
  "\<not> is_status_push (Set_failed s)" "\<not> is_status_push (Call_updateDeployment g)"
  by (simp_all add: is_status_push_def)

lemma getCloudflareLogs_no_github:
  "list_all (\<lambda>e. \<not> reaches_github e) (snd (getCloudflareLogs w h a p d))"
  by (simp add: getCloudflareLogs_def Let_def split: logs_response.splits logs_body.splits)

lemma slack_send_no_github: "list_all (\<lambda>e. \<not> reaches_github e) (slack_send w hook text sent)"
  by (simp add: slack_send_def split: option.splits)

lemma stage_change_no_token:
  "githubToken i = [] \<Longrightarrow> list_all (\<lambda>e. \<not> reaches_github e) (snd (snd (stage_change i w d st)))"
  by (simp add: stage_change_def updateDeployment_def Let_def)

text \<open>A call for a finished deploy stage that does not throw pushes one status.\<close>

lemma updateDeployment_pushes:
  assumes "token \<noteq> []" and "deploy_finished d"
    and "fst (updateDeployment i w token d s st) = None"
  shows "\<exists>args. cs_state args = s
           \<and> filter is_status_push (snd (snd (updateDeployment i w token d s st)))
               = [Create_deployment_status args]"
proof -
  have push: "\<exists>args. cs_state args = s
      \<and> push_status i w d s n = (createDeploymentStatus w args, [Create_deployment_status args])" for n
    using push_status_finished [OF assms(2), of s n i w] by blast
  show ?thesis
  proof (cases "ghDeployment st")
    case (Some n)
    from push [of n] obtain args where "cs_state args = s"
      "push_status i w d s n = (createDeploymentStatus w args, [Create_deployment_status args])"
      by blast
    with Some assms(1) show ?thesis by (simp add: updateDeployment_def)
  next
    case None
    let ?args = "\<lparr>cd_owner = repo_owner i, cd_repo = repo_name i,
                         cd_ref = commit_hash (deployment_trigger d),
                         cd_environment = environment_label d,
                         cd_production_environment = (environment d = ''production'')\<rparr>"
    show ?thesis
    proof (cases "createDeployment w ?args")
      case (Inl e)
      with None assms(1,3) show ?thesis by (simp add: updateDeployment_def)
    next
      case (Inr n)
      from push [of n] obtain args where "cs_state args = s"
        "push_status i w d s n = (createDeploymentStatus w args, [Create_deployment_status args])"
        by blast
      with None Inr assms(1) show ?thesis by (simp add: updateDeployment_def)
    qed
  qed
qed

text \<open>What the failure path sends to GitHub.\<close>

lemma failure_path_unfold:
  "failure_path i w h d st =
     (case fst (updateDeployment i w (githubToken i) d Failure (st\<lparr>waiting := False\<rparr>)) of
        None \<Rightarrow> Return | Some e \<Rightarrow> Throw e,
      fst (snd (updateDeployment i w (githubToken i) d Failure (st\<lparr>waiting := False\<rparr>))),
      (if slackWebHook i \<noteq> [] then
         snd (getCloudflareLogs w h (accountId i) (project i) (dep_id d))
         @ slack_send w (slackWebHook i)
             (failure_text i d (fst (getCloudflareLogs w h (accountId i) (project i) (dep_id d))))
             (''Slack message for '' @ name (latest_stage d) @ '' failed pipeline sent!'')
       else [])
      @ [Set_failed (''Deployment failed on step: '' @ name (latest_stage d) @ ''!''),
         Call_updateDeployment Failure]
      @ snd (snd (updateDeployment i w (githubToken i) d Failure (st\<lparr>waiting := False\<rparr>))))"
  by (simp add: failure_path_def Let_def case_prod_beta)

lemma failure_path_github:
  "(githubToken i = [] \<longrightarrow>
      list_all (\<lambda>e. \<not> reaches_github e) (snd (snd (failure_path i w h d st))))
   \<and> (githubToken i \<noteq> [] \<and> deploy_finished d \<and> fst (failure_path i w h d st) = Return \<longrightarrow>
        (\<exists>args rest. cs_state args = Failure
           \<and> filter is_status_push (snd (snd (failure_path i w h d st)))
               = rest @ [Create_deployment_status args]))"
proof (intro conjI impI)
  assume "githubToken i = []"
  then show "list_all (\<lambda>e. \<not> reaches_github e) (snd (snd (failure_path i w h d st)))"
    by (simp add: failure_path_unfold updateDeployment_def getCloudflareLogs_no_github
        slack_send_no_github)
next
  let ?up = "updateDeployment i w (githubToken i) d Failure (st\<lparr>waiting := False\<rparr>)"
  assume a: "githubToken i \<noteq> [] \<and> deploy_finished d \<and> fst (failure_path i w h d st) = Return"
  then have "fst ?up = None"
    by (simp add: failure_path_unfold split: option.splits)
  with a updateDeployment_pushes [of "githubToken i" d i w Failure "st\<lparr>waiting := False\<rparr>"]
  obtain args where "cs_state args = Failure"
    "filter is_status_push (snd (snd ?up)) = [Create_deployment_status args]" by blast
  then show "\<exists>args rest. cs_state args = Failure
           \<and> filter is_status_push (snd (snd (failure_path i w h d st)))
               = rest @ [Create_deployment_status args]"
    by (simp add: failure_path_unfold)
qed

lemma failed_deploy_github:
  assumes "fst (pollApi h (accountId i) (project i) (commitHash i) r st) = Some d"
    and "waiting st" and "name (latest_stage d) = ''deploy''"
    and "status (latest_stage d) = ''failed'' \<or> status (latest_stage d) = ''failure''"
  shows "(githubToken i = [] \<longrightarrow>
            list_all (\<lambda>e. \<not> reaches_github e) (snd (snd (run_loop i w h st (r # rs)))))
       \<and> (\<not> is_skipped d \<and> fst (stage_change i w d st) = None \<and> githubToken i \<noteq> []
            \<and> status (latest_stage d) = ''failed''
            \<and> fst (run_loop i w h st (r # rs)) = Returned \<longrightarrow>
            (\<exists>args. cs_state args = Failure
               \<and> last (filter is_status_push (snd (snd (run_loop i w h st (r # rs)))))
                   = Create_deployment_status args))"
proof -
  note p = pollApi_Some [OF assms(1)]
  let ?fetch = "Fetch_deployments h (deployments_url (accountId i) (project i))"
  show ?thesis
  proof (cases "is_skipped d")
    case True
    with p assms(2) show ?thesis by (simp add: loop_body_def)
  next
    case False
    obtain err st2 ev_stage where sc: "stage_change i w d st = (err, st2, ev_stage)"
      by (cases "stage_change i w d st") auto
    from stage_change_no_token [of i w d st] sc
    have ns: "githubToken i = [] \<longrightarrow> list_all (\<lambda>e. \<not> reaches_github e) ev_stage" by simp
    show ?thesis
    proof (cases err)
      case (Some e)
      with False p assms(2) sc ns show ?thesis by (simp add: loop_body_def)
    next
      case None
      let ?fp = "failure_path i w h d st2"
      have nn: "fst ?fp \<noteq> Next" by (simp add: failure_path_unfold split: option.splits)
      have nw: "\<not> waiting (fst (snd ?fp))"
        by (simp add: failure_path_unfold updateDeployment_waiting)
      from None False p assms(2,4) sc
      have body: "loop_body i w h r st = (fst ?fp, fst (snd ?fp), (Sleep # ?fetch # ev_stage) @ snd (snd ?fp))"
        by (auto simp add: loop_body_def case_prod_beta)
      have rl: "run_loop i w h st (r # rs)
                  = (case fst ?fp of Throw e \<Rightarrow> Threw e | _ \<Rightarrow> Returned, fst (snd ?fp),
                     (Sleep # ?fetch # ev_stage) @ snd (snd ?fp))"
        using body assms(2) nn by (cases "fst ?fp") simp_all
      have A: "githubToken i = [] \<longrightarrow>
            list_all (\<lambda>e. \<not> reaches_github e) ((Sleep # ?fetch # ev_stage) @ snd (snd ?fp))"
        using ns failure_path_github [of i w h d st2] by simp
      have B: "\<exists>args. cs_state args = Failure
               \<and> last (filter is_status_push ((Sleep # ?fetch # ev_stage) @ snd (snd ?fp)))
                   = Create_deployment_status args"
        if t: "githubToken i \<noteq> []" and s: "status (latest_stage d) = ''failed''"
          and o: "(case fst ?fp of Throw e \<Rightarrow> Threw e | _ \<Rightarrow> Returned) = Returned"
      proof -
        from o nn have "fst ?fp = Return" by (cases "fst ?fp") simp_all
        moreover from s assms(3) have "deploy_finished d" by (simp add: deploy_finished_def)
        ultimately obtain args rest where "cs_state args = Failure"
          "filter is_status_push (snd (snd ?fp)) = rest @ [Create_deployment_status args]"
          using t failure_path_github [of i w h d st2] by blast
        then show ?thesis by simp
      qed
      from A B show ?thesis unfolding rl by simp
    qed
  qed
qed

text \<open>The iteration that polls a failed deploy stage.\<close>

lemma failed_deploy_iteration:
  assumes "fst (pollApi h (accountId i) (project i) (commitHash i) r st) = Some d"
    and "waiting st" and "name (latest_stage d) = ''deploy''"
    and "status (latest_stage d) = ''failed'' \<or> status (latest_stage d) = ''failure''"
  shows "\<exists>oc st' ev. (\<forall>rs. run_loop i w h st (r # rs) = (oc, st', ev))
     \<and> (\<forall>n v. Set_output n v \<in> set ev \<longrightarrow>
            n \<notin> set [''id'', ''environment'', ''url'', ''alias'', ''success''])
     \<and> (\<forall>t. Slack_send t \<in> set ev \<longrightarrow> (\<forall>a. t \<noteq> success_text i d a))
     \<and> Call_updateDeployment Success \<notin> set ev
     \<and> (\<not> is_skipped d \<and> fst (stage_change i w d st) = None \<longrightarrow>
          oc \<noteq> Polling \<and> \<not> waiting st'
          \<and> Set_failed ''Deployment failed on step: deploy!'' \<in> set ev
          \<and> Call_updateDeployment Failure \<in> set ev
          \<and> (slackWebHook i \<noteq> [] \<longrightarrow>
               Slack_send (failure_text i d
                   (fst (getCloudflareLogs w h (accountId i) (project i) (dep_id d)))) \<in> set ev))"
proof -
  note p = pollApi_Some [OF assms(1)]
  let ?fetch = "Fetch_deployments h (deployments_url (accountId i) (project i))"
  have goal: ?thesis if "\<And>rs. run_loop i w h st (r # rs) = (oc, st', ev)"
    and "no_success_path i d ev"
    and "\<not> is_skipped d \<and> fst (stage_change i w d st) = None \<longrightarrow>
          oc \<noteq> Polling \<and> \<not> waiting st'
          \<and> Set_failed ''Deployment failed on step: deploy!'' \<in> set ev
          \<and> Call_updateDeployment Failure \<in> set ev
          \<and> (slackWebHook i \<noteq> [] \<longrightarrow>
               Slack_send (failure_text i d
                   (fst (getCloudflareLogs w h (accountId i) (project i) (dep_id d)))) \<in> set ev)"
    for oc st' ev
    using that unfolding no_success_path_def by blast
  show ?thesis
  proof (cases "is_skipped d")
    case True
    let ?ev = "[Sleep, ?fetch, Console_log (''Deployment skipped '' @ dep_id d @ ''!''),
               Set_output (''Deployment skipped '' @ dep_id d @ ''!'') Out_undefined]"
    from True p assms(2) have "run_loop i w h st (r # rs) = (Returned, st\<lparr>waiting := False\<rparr>, ?ev)" for rs
      by (simp add: loop_body_def)
    moreover have "no_success_path i d ?ev"
      by (simp add: no_success_path_def)
    ultimately show ?thesis using True by (intro goal) auto
  next
    case False
    obtain err st2 ev_stage where sc: "stage_change i w d st = (err, st2, ev_stage)"
      by (cases "stage_change i w d st") auto
    from stage_change_plain [of i w d st] sc have ps: "list_all routine ev_stage" by simp
    have pre: "no_success_path i d (Sleep # ?fetch # ev_stage)"
      using routine_no_success_path [of "Sleep # ?fetch # ev_stage" i d] ps
      by (simp add: routine_def)
    show ?thesis
    proof (cases err)
      case (Some e)
      with False p assms(2) sc have "run_loop i w h st (r # rs) = (Threw e, st2, Sleep # ?fetch # ev_stage)" for rs
        by (simp add: loop_body_def)
      with pre show ?thesis using Some sc by (intro goal) auto
    next
      case None
      from failure_path_events [of i w h d st2] obtain res st3 ev_f where
        f: "failure_path i w h d st2 = (res, st3, ev_f)" "res \<noteq> Next" "\<not> waiting st3"
           "no_success_path i d ev_f"
           "Set_failed (''Deployment failed on step: '' @ name (latest_stage d) @ ''!'') \<in> set ev_f"
           "Call_updateDeployment Failure \<in> set ev_f"
           "slackWebHook i \<noteq> [] \<longrightarrow>
              Slack_send (failure_text i d (fst (getCloudflareLogs w h (accountId i) (project i) (dep_id d))))
                \<in> set ev_f"
        by blast
      let ?oc = "case res of Throw e \<Rightarrow> Threw e | _ \<Rightarrow> Returned"
      from None False p assms(2,4) sc f(1,2)
      have "run_loop i w h st (r # rs) = (?oc, st3, (Sleep # ?fetch # ev_stage) @ ev_f)" for rs
        by (cases res) (auto simp add: loop_body_def)
      moreover from pre f(4) have "no_success_path i d ((Sleep # ?fetch # ev_stage) @ ev_f)"
        by (simp only: no_success_path_append)
      moreover have "?oc \<noteq> Polling" by (cases res) simp_all
      ultimately show ?thesis using f(3,5,6,7) assms(3) by (intro goal) auto
    qed
  qed
qed

text \<open>
  For the status \<open>failure\<close> the run calls \<open>updateDeployment\<close> with the state
  \<open>failure\<close>, but the check of line 259 admits only \<open>success\<close> and \<open>failed\<close>: the
  deployment record is created and no status is pushed.
\<close>

lemma failure_status_pushes_nothing:
  "trace (run github_inputs example_world [listing [at_stage ''deploy'' ''failure'']])
   = [Console_log ''Waiting for Pages to finish building...'',
      Sleep, Fetch_deployments (Bearer ''tok'') (deployments_url ''acc'' ''site''),
      Console_log ''# Now at stage: deploy'', Call_updateDeployment In_progress,
      Create_deployment \<lparr>cd_owner = ''o'', cd_repo = ''r'', cd_ref = ''abc'',
         cd_environment = ''Production'', cd_production_environment = True\<rparr>,
      Fetch_logs (Bearer ''tok'') (logs_url ''acc'' ''site'' ''d1''),
      Slack_send (failure_text github_inputs (at_stage ''deploy'' ''failure'')
         (fence @ ''a'' @ newline @ ''b'' @ newline @ fence)),
      Slack_then ''Slack message for deploy failed pipeline sent!'',
      Set_failed ''Deployment failed on step: deploy!'', Call_updateDeployment Failure]"
  by (simp add: trace_def model_defs example_defs environment_label_def slice_last_def)

section \<open>The claims\<close>

subsection \<open>C1: failures of a poll\<close>

text \<open>
  Claim C1 says that a network failure and an unparseable response abort the run with no
  further polling. The code marks the run as failed but leaves \<open>waiting\<close> set, so the
  loop goes on: after a network failure and then a response that is not JSON, the run
  has polled twice, has logged the waiting line twice and is still polling. Only the
  API error envelope stops the loop (\<open>api_error_halts\<close>).
\<close>

theorem C1_poll_failures_keep_polling:
  "run example_inputs example_world
     [Network_failure (Js_error ''FetchError'' ''socket hang up''),
      Not_json 502 ''Bad Gateway'' (Js_error ''SyntaxError'' ''Unexpected token'')]
   = (Polling, initial_state,
      [Console_log ''Waiting for Pages to finish building...'',
       Sleep, Fetch_deployments (Bearer ''tok'') (deployments_url ''acc'' ''site''),
       Core_error ''Failed to send request to CF API - network issue? socket hang up'',
       Set_failed ''FetchError: socket hang up'',
       Console_log ''Waiting for the deployment to start...'',
       Sleep, Fetch_deployments (Bearer ''tok'') (deployments_url ''acc'' ''site''),
       Core_error ''CF API did not return a JSON (possibly down?) - Status code: 502 (Bad Gateway)'',
       Set_failed ''SyntaxError: Unexpected token'',
       Console_log ''Waiting for the deployment to start...''])"
  by (simp add: model_defs example_defs error_toString_def show_nat_502)

subsection \<open>C2: notifications without a webhook\<close>

text \<open>
  Claim C2 says that no notification is sent when \<open>slackWebHook\<close> is empty. The failure
  path is guarded by the webhook (\<open>failure_path_without_webhook\<close>), the deploy-success
  path is not: with an empty webhook and a successful deployment the run calls
  \<open>slack.send\<close> with the success message, whatever the Slack client and the other
  services answer.
\<close>

theorem C2_success_sends_without_webhook:
  "slackWebHook example_inputs = []
   \<and> run example_inputs w [listing [example_deployment]]
     = (Returned,
        \<lparr>waiting = False, ghDeployment = None, markedAsInProgress = True, lastStage = ''deploy''\<rparr>,
        [Console_log ''Waiting for Pages to finish building...'',
         Sleep, Fetch_deployments (Bearer ''tok'') (deployments_url ''acc'' ''site''),
         Console_log ''# Now at stage: deploy'', Call_updateDeployment In_progress]
        @ success_outputs example_deployment
        @ Slack_send (success_text example_inputs example_deployment ''https://abc.preview.example'')
          # (case slack_delivery w ''''
                    (success_text example_inputs example_deployment ''https://abc.preview.example'') of
               None \<Rightarrow> [Slack_then ''Slack message for DEPLOYMENT succeeded pipeline sent!'']
             | Some err \<Rightarrow> [Slack_catch (error_toString err)]))"
  by (simp add: model_defs example_defs success_outputs_def alias_of_def)

subsection \<open>C3: a failed deploy stage takes the failure path\<close>

text \<open>
  Claim C3, as amended. When the poll of an iteration yields a deployment whose latest
  stage is \<open>deploy\<close> with status \<open>failed\<close> or \<open>failure\<close>, the run ends in that
  iteration, whatever later polls would answer, and never takes the deploy-success path:
  none of the outputs \<open>id\<close>, \<open>environment\<close>, \<open>url\<close>, \<open>alias\<close>, \<open>success\<close> is set, no
  Slack message is the success message and \<open>updateDeployment\<close> is not called with
  \<open>success\<close>. Unless the deployment is skipped or the in-progress reflection of that
  iteration throws, the run takes the failure path: it calls \<open>setFailed\<close> naming the step
  \<open>deploy\<close>, calls \<open>updateDeployment\<close> with \<open>failure\<close> and, when a webhook is
  configured, sends the failure message with the fetched logs. What reaches the
  source-control system depends on the credential: without one, no deployment record and
  no status is created; with one, on that failure path, for the status \<open>failed\<close> and a
  run that returns, the last status pushed has the state \<open>failure\<close>.
\<close>

theorem C3_failed_deploy:
  assumes "fst (pollApi h (accountId i) (project i) (commitHash i) r st) = Some d"
    and "waiting st" and "name (latest_stage d) = ''deploy''"
    and "status (latest_stage d) = ''failed'' \<or> status (latest_stage d) = ''failure''"
  shows "\<exists>oc st' ev. (\<forall>rs. run_loop i w h st (r # rs) = (oc, st', ev))
     \<and> (\<forall>n v. Set_output n v \<in> set ev \<longrightarrow>
            n \<notin> set [''id'', ''environment'', ''url'', ''alias'', ''success''])
     \<and> (\<forall>t. Slack_send t \<in> set ev \<longrightarrow> (\<forall>a. t \<noteq> success_text i d a))
     \<and> Call_updateDeployment Success \<notin> set ev
     \<and> (\<not> is_skipped d \<and> fst (stage_change i w d st) = None \<longrightarrow>
          oc \<noteq> Polling \<and> \<not> waiting st'
          \<and> Set_failed ''Deployment failed on step: deploy!'' \<in> set ev
          \<and> Call_updateDeployment Failure \<in> set ev
          \<and> (slackWebHook i \<noteq> [] \<longrightarrow>
               Slack_send (failure_text i d
                   (fst (getCloudflareLogs w h (accountId i) (project i) (dep_id d)))) \<in> set ev))
     \<and> (githubToken i = [] \<longrightarrow> list_all (\<lambda>e. \<not> reaches_github e) ev)
     \<and> (\<not> is_skipped d \<and> fst (stage_change i w d st) = None \<and> githubToken i \<noteq> []
          \<and> status (latest_stage d) = ''failed'' \<and> oc = Returned \<longrightarrow>
          (\<exists>args. cs_state args = Failure
             \<and> last (filter is_status_push ev) = Create_deployment_status args))"
proof -
  from failed_deploy_iteration [OF assms, of w] obtain oc st' ev where
    e: "\<forall>rs. run_loop i w h st (r # rs) = (oc, st', ev)"
    and f: "(\<forall>n v. Set_output n v \<in> set ev \<longrightarrow>
            n \<notin> set [''id'', ''environment'', ''url'', ''alias'', ''success''])
     \<and> (\<forall>t. Slack_send t \<in> set ev \<longrightarrow> (\<forall>a. t \<noteq> success_text i d a))
     \<and> Call_updateDeployment Success \<notin> set ev
     \<and> (\<not> is_skipped d \<and> fst (stage_change i w d st) = None \<longrightarrow>
          oc \<noteq> Polling \<and> \<not> waiting st'
          \<and> Set_failed ''Deployment failed on step: deploy!'' \<in> set ev
          \<and> Call_updateDeployment Failure \<in> set ev
          \<and> (slackWebHook i \<noteq> [] \<longrightarrow>
               Slack_send (failure_text i d
                   (fst (getCloudflareLogs w h (accountId i) (project i) (dep_id d)))) \<in> set ev))"
    by blast
  from e have r: "run_loop i w h st [r] = (oc, st', ev)" by blast
  from failed_deploy_github [OF assms, of w "[]"] r
  have g: "(githubToken i = [] \<longrightarrow> list_all (\<lambda>e. \<not> reaches_github e) ev)
     \<and> (\<not> is_skipped d \<and> fst (stage_change i w d st) = None \<and> githubToken i \<noteq> []
          \<and> status (latest_stage d) = ''failed'' \<and> oc = Returned \<longrightarrow>
          (\<exists>args. cs_state args = Failure
             \<and> last (filter is_status_push ev) = Create_deployment_status args))"
    by simp
  from e f g show ?thesis by blast
qed

text \<open>The theorem at a concrete input.\<close>

theorem C3_failed_deploy_witness:
  "\<exists>st' ev args. run_loop github_inputs example_world (Bearer ''tok'') initial_state
                 [listing [at_stage ''deploy'' ''failed''], listing [example_deployment]]
               = (Returned, st', ev)
     \<and> \<not> waiting st'
     \<and> Set_failed ''Deployment failed on step: deploy!'' \<in> set ev
     \<and> Call_updateDeployment Failure \<in> set ev
     \<and> Call_updateDeployment Success \<notin> set ev
     \<and> (\<forall>v. Set_output ''success'' v \<notin> set ev)
     \<and> Slack_send (failure_text github_inputs (at_stage ''deploy'' ''failed'')
           (fence @ ''a'' @ newline @ ''b'' @ newline @ fence)) \<in> set ev
     \<and> cs_state args = Failure
     \<and> last (filter is_status_push ev) = Create_deployment_status args"
proof -
  let ?r = "listing [at_stage ''deploy'' ''failed'']" and ?d = "at_stage ''deploy'' ''failed''"
  have 1: "fst (pollApi (Bearer ''tok'') (accountId github_inputs) (project github_inputs)
             (commitHash github_inputs) ?r initial_state) = Some ?d"
    by (simp add: pollApi_def example_defs)
  have 2: "waiting initial_state" by (simp add: initial_state_def)
  have 3: "name (latest_stage ?d) = ''deploy''"
    and 4: "status (latest_stage ?d) = ''failed'' \<or> status (latest_stage ?d) = ''failure''"
    by (simp_all add: at_stage_def)
  have 5: "\<not> is_skipped ?d \<and> fst (stage_change github_inputs example_world ?d initial_state) = None"
    by (simp add: model_defs example_defs)
  have 6: "slackWebHook github_inputs \<noteq> []" "githubToken github_inputs \<noteq> []"
    "status (latest_stage ?d) = ''failed''"
    by (simp_all add: example_defs)
  have 7: "fst (getCloudflareLogs example_world (Bearer ''tok'') (accountId github_inputs)
              (project github_inputs) (dep_id ?d)) = fence @ ''a'' @ newline @ ''b'' @ newline @ fence"
    by (simp add: getCloudflareLogs_def example_defs slice_last_def)
  have 8: "run_loop github_inputs example_world (Bearer ''tok'') initial_state
             [?r, listing [example_deployment]] = (oc, st', ev) \<Longrightarrow> oc = Returned" for oc st' ev
    by (simp add: model_defs example_defs)
  from C3_failed_deploy [OF 1 2 3 4, of example_world] obtain oc st' ev where
    a: "\<forall>rs. run_loop github_inputs example_world (Bearer ''tok'') initial_state (?r # rs) = (oc, st', ev)"
    and b: "\<forall>n v. Set_output n v \<in> set ev \<longrightarrow>
              n \<notin> set [''id'', ''environment'', ''url'', ''alias'', ''success'']"
    and c: "Call_updateDeployment Success \<notin> set ev"
    and d: "\<not> is_skipped ?d \<and> fst (stage_change github_inputs example_world ?d initial_state) = None \<longrightarrow>
          oc \<noteq> Polling \<and> \<not> waiting st'
          \<and> Set_failed ''Deployment failed on step: deploy!'' \<in> set ev
          \<and> Call_updateDeployment Failure \<in> set ev
          \<and> (slackWebHook github_inputs \<noteq> [] \<longrightarrow>
               Slack_send (failure_text github_inputs ?d
                   (fst (getCloudflareLogs example_world (Bearer ''tok'') (accountId github_inputs)
                          (project github_inputs) (dep_id ?d)))) \<in> set ev)"
    and g: "\<not> is_skipped ?d \<and> fst (stage_change github_inputs example_world ?d initial_state) = None
          \<and> githubToken github_inputs \<noteq> []
          \<and> status (latest_stage ?d) = ''failed'' \<and> oc = Returned \<longrightarrow>
          (\<exists>args. cs_state args = Failure
             \<and> last (filter is_status_push ev) = Create_deployment_status args)"
    by blast
  from a have r: "run_loop github_inputs example_world (Bearer ''tok'') initial_state
                    [?r, listing [example_deployment]] = (oc, st', ev)" by blast
  from 8 [OF r] have oc: "oc = Returned" .
  have o: "Set_output ''success'' v \<notin> set ev" for v
  proof
    assume "Set_output ''success'' v \<in> set ev"
    with b have "''success'' \<notin> set [''id'', ''environment'', ''url'', ''alias'', ''success'']"
      by blast
    then show False by simp
  qed
  from d 5 6 7 have "\<not> waiting st'" "Set_failed ''Deployment failed on step: deploy!'' \<in> set ev"
    "Call_updateDeployment Failure \<in> set ev"
    "Slack_send (failure_text github_inputs ?d (fence @ ''a'' @ newline @ ''b'' @ newline @ fence)) \<in> set ev"
    by simp_all
  moreover from g 5 6 oc obtain args where "cs_state args = Failure"
    "last (filter is_status_push ev) = Create_deployment_status args" by blast
  ultimately show ?thesis using r oc c o by blast
qed

text \<open>
  Claim C3 as stated fails: with no source-control credential and no webhook, a failed
  deploy stage ends the run on the failure path, but no notification is sent and nothing
  is reflected to the source-control system.
\<close>

theorem C3_no_credential_counterexample:
  "githubToken example_inputs = [] \<and> slackWebHook example_inputs = []
   \<and> run example_inputs example_world [listing [at_stage ''deploy'' ''failed'']]
     = (Returned,
        \<lparr>waiting = False, ghDeployment = None, markedAsInProgress = True, lastStage = ''deploy''\<rparr>,
        [Console_log ''Waiting for Pages to finish building...'',
         Sleep, Fetch_deployments (Bearer ''tok'') (deployments_url ''acc'' ''site''),
         Console_log ''# Now at stage: deploy'', Call_updateDeployment In_progress,
         Set_failed ''Deployment failed on step: deploy!'', Call_updateDeployment Failure])"
  by (simp add: model_defs example_defs)

subsection \<open>C4: the in-progress reflection happens once, at the first stage change\<close>

text \<open>
  Claim C4. In every run, whatever the polls answer, \<open>updateDeployment\<close> is called with
  state \<open>in_progress\<close> exactly once if a change of the stage name is observed at all and
  never otherwise, however many changes follow: the number of such calls in the trace is
  1 when the trace holds a stage-change line and 0 when it holds none. The call comes
  directly after the first stage-change line of the run: whatever precedes it ends with
  a stage-change line and holds no other one.
\<close>

theorem C4_in_progress_once:
  "count_list (trace (run i w rs)) (Call_updateDeployment In_progress)
     = (if \<exists>n. stage_log n \<in> set (trace (run i w rs)) then 1 else 0)
   \<and> (\<forall>pre post. trace (run i w rs) = pre @ Call_updateDeployment In_progress # post \<longrightarrow>
        (\<exists>n before. pre = before @ [stage_log n] \<and> (\<forall>m. stage_log m \<notin> set before)))"
proof -
  obtain oc st' ev where r: "run i w rs = (oc, st', ev)"
    by (cases "run i w rs") auto
  then have t: "trace (run i w rs) = ev" by (simp add: trace_def)
  from run_shape [OF r]
  consider "quiet ev"
    | pre n post where "ev = pre @ stage_log n # in_progress_call # post" "quiet pre"
        "in_progress_call \<notin> set post"
    by blast
  then show ?thesis
  proof cases
    case 1
    then have "Call_updateDeployment In_progress \<notin> set ev" "\<forall>n. stage_log n \<notin> set ev"
      by (simp_all add: quiet_def in_progress_call_def)
    then show ?thesis unfolding t by (auto simp add: count_list_0_iff)
  next
    case 2
    have ne: "in_progress_call \<noteq> stage_log n" by (simp add: in_progress_call_def stage_log_def)
    from 2(2) ne have a: "in_progress_call \<notin> set (pre @ [stage_log n])"
      by (simp add: quiet_def)
    from 2(1) have shape: "ev = (pre @ [stage_log n]) @ in_progress_call # post" by simp
    from a 2(3) ne have "count_list ev in_progress_call = 1"
      unfolding shape by (auto simp add: count_list_0_iff)
    moreover from shape have "stage_log n \<in> set ev" by simp
    moreover have "\<exists>n before. p = before @ [stage_log n] \<and> (\<forall>m. stage_log m \<notin> set before)"
      if "ev = p @ in_progress_call # q" for p q
    proof -
      from that shape have "(pre @ [stage_log n]) @ in_progress_call # post = p @ in_progress_call # q"
        by simp
      with append_Cons_eq_iff [OF a 2(3), of p q] have "pre @ [stage_log n] = p"
        by blast
      with 2(2) show ?thesis by (auto simp add: quiet_def)
    qed
    ultimately show ?thesis unfolding t by (auto simp add: in_progress_call_def)
  qed
qed

text \<open>The theorem at a concrete input.\<close>

theorem C4_in_progress_once_witness:
  "stage_log ''queued'' \<in> set (trace (run github_inputs example_world three_stages))
   \<and> stage_log ''build'' \<in> set (trace (run github_inputs example_world three_stages))
   \<and> stage_log ''deploy'' \<in> set (trace (run github_inputs example_world three_stages))
   \<and> count_list (trace (run github_inputs example_world three_stages))
        (Call_updateDeployment In_progress) = 1"
proof -
  let ?t = "trace (run github_inputs example_world three_stages)"
  have a: "stage_log ''queued'' \<in> set ?t" "stage_log ''build'' \<in> set ?t" "stage_log ''deploy'' \<in> set ?t"
    by (simp_all add: trace_def model_defs example_defs stage_log_def)
  then have "\<exists>n. stage_log n \<in> set ?t" by blast
  with C4_in_progress_once [of github_inputs example_world three_stages] a
  show ?thesis by simp
qed

subsection \<open>C5: validation of the credentials\<close>

text \<open>
  Claim C5, as amended. \<open>validateAuthInputs\<close> accepts the credentials exactly when the
  bearer token is supplied (with or without an e-mail and a key) or both the account
  e-mail and the API key are supplied. When neither holds, the run is over before any
  polling: no sleep and no request appear in its trace, and it either rejects on a
  required input that is not supplied or returns after reporting the authentication
  failure. When the token is supplied it takes precedence for the request headers: every
  request of the run carries the bearer token, and the first poll is made with it. With
  no token and both the e-mail and the key, every request carries that pair.
\<close>

theorem C5_validateAuthInputs:
  "(fst (validateAuthInputs t e k) \<longleftrightarrow> t \<noteq> [] \<or> (e \<noteq> [] \<and> k \<noteq> []))
   \<and> (apiToken i = [] \<and> (accountEmail i = [] \<or> apiKey i = []) \<longrightarrow>
        (\<exists>oc st ev. run i w rs = (oc, st, ev) \<and> Sleep \<notin> set ev
           \<and> (\<forall>h u. Fetch_deployments h u \<notin> set ev)
           \<and> (if accountId_raw i = [] \<or> project_raw i = [] then \<exists>err. oc = Threw err
               else oc = Returned \<and> ev = [Set_failed auth_failure_message])))
   \<and> (apiToken i \<noteq> [] \<and> accountId_raw i \<noteq> [] \<and> project_raw i \<noteq> [] \<longrightarrow>
        list_all (sent_with (Bearer (apiToken i))) (trace (run i w rs))
        \<and> (rs \<noteq> [] \<longrightarrow>
             take 3 (trace (run i w rs))
               = [Console_log ''Waiting for Pages to finish building...'', Sleep,
                  Fetch_deployments (Bearer (apiToken i))
                    (deployments_url (accountId i) (project i))]))
   \<and> (apiToken i = [] \<and> accountEmail i \<noteq> [] \<and> apiKey i \<noteq> []
        \<and> accountId_raw i \<noteq> [] \<and> project_raw i \<noteq> [] \<longrightarrow>
        list_all (sent_with (Email_key (accountEmail i) (apiKey i))) (trace (run i w rs))
        \<and> (rs \<noteq> [] \<longrightarrow>
             take 3 (trace (run i w rs))
               = [Console_log ''Waiting for Pages to finish building...'', Sleep,
                  Fetch_deployments (Email_key (accountEmail i) (apiKey i))
                    (deployments_url (accountId i) (project i))]))"
proof -
  have 1: "fst (validateAuthInputs t e k) \<longleftrightarrow> t \<noteq> [] \<or> (e \<noteq> [] \<and> k \<noteq> [])"
    by (simp add: validateAuthInputs_def)
  have 2: "\<exists>oc st ev. run i w rs = (oc, st, ev) \<and> Sleep \<notin> set ev
           \<and> (\<forall>h u. Fetch_deployments h u \<notin> set ev)
           \<and> (if accountId_raw i = [] \<or> project_raw i = [] then \<exists>err. oc = Threw err
               else oc = Returned \<and> ev = [Set_failed auth_failure_message])"
    if "apiToken i = [] \<and> (accountEmail i = [] \<or> apiKey i = [])"
    using that by (auto simp add: validateAuthInputs_def run_def)
  have 3: "list_all (sent_with (Bearer (apiToken i))) (trace (run i w rs))
        \<and> (rs \<noteq> [] \<longrightarrow>
             take 3 (trace (run i w rs))
               = [Console_log ''Waiting for Pages to finish building...'', Sleep,
                  Fetch_deployments (Bearer (apiToken i))
                    (deployments_url (accountId i) (project i))])"
    if a: "apiToken i \<noteq> [] \<and> accountId_raw i \<noteq> [] \<and> project_raw i \<noteq> []"
  proof -
    from a have v: "fst (validateAuthInputs (apiToken i) (accountEmail i) (apiKey i))"
      by (simp add: validateAuthInputs_def)
    from a show ?thesis by (intro run_requests [OF _ _ v]) simp_all
  qed
  have 4: "list_all (sent_with (Email_key (accountEmail i) (apiKey i))) (trace (run i w rs))
        \<and> (rs \<noteq> [] \<longrightarrow>
             take 3 (trace (run i w rs))
               = [Console_log ''Waiting for Pages to finish building...'', Sleep,
                  Fetch_deployments (Email_key (accountEmail i) (apiKey i))
                    (deployments_url (accountId i) (project i))])"
    if a: "apiToken i = [] \<and> accountEmail i \<noteq> [] \<and> apiKey i \<noteq> []
        \<and> accountId_raw i \<noteq> [] \<and> project_raw i \<noteq> []"
  proof -
    from a have v: "fst (validateAuthInputs (apiToken i) (accountEmail i) (apiKey i))"
      by (simp add: validateAuthInputs_def)
    from a show ?thesis by (intro run_requests [OF _ _ v]) simp_all
  qed
  from 1 2 3 4 show ?thesis by blast
qed

text \<open>The theorem at a concrete input.\<close>

theorem C5_validateAuthInputs_witness:
  "apiToken (example_inputs\<lparr>apiToken := [], accountEmail := ''user@example.com''\<rparr>) = []
   \<and> apiKey (example_inputs\<lparr>apiToken := [], accountEmail := ''user@example.com''\<rparr>) = []
   \<and> \<not> fst (validateAuthInputs [] ''user@example.com'' [])
   \<and> (\<exists>st. run (example_inputs\<lparr>apiToken := [], accountEmail := ''user@example.com''\<rparr>)
              example_world [listing [example_deployment]]
            = (Returned, st, [Set_failed auth_failure_message]))
   \<and> apiToken (example_inputs\<lparr>accountEmail := ''user@example.com'', apiKey := ''key''\<rparr>) \<noteq> []
   \<and> take 3 (trace (run (example_inputs\<lparr>accountEmail := ''user@example.com'', apiKey := ''key''\<rparr>)
                      example_world [listing []]))
       = [Console_log ''Waiting for Pages to finish building...'', Sleep,
          Fetch_deployments (Bearer ''tok'') (deployments_url ''acc'' ''site'')]
   \<and> take 3 (trace (run (example_inputs\<lparr>apiToken := [], accountEmail := ''user@example.com'',
                                         apiKey := ''key''\<rparr>)
                      example_world [listing []]))
       = [Console_log ''Waiting for Pages to finish building...'', Sleep,
          Fetch_deployments (Email_key ''user@example.com'' ''key'') (deployments_url ''acc'' ''site'')]"
  using C5_validateAuthInputs [of "[]" "''user@example.com''" "[]"
      "example_inputs\<lparr>apiToken := [], accountEmail := ''user@example.com''\<rparr>"
      example_world "[listing [example_deployment]]"]
    C5_validateAuthInputs [of "[]" "[]" "[]"
      "example_inputs\<lparr>accountEmail := ''user@example.com'', apiKey := ''key''\<rparr>"
      example_world "[listing []]"]
    C5_validateAuthInputs [of "[]" "[]" "[]"
      "example_inputs\<lparr>apiToken := [], accountEmail := ''user@example.com'', apiKey := ''key''\<rparr>"
      example_world "[listing []]"]
  by (simp add: example_inputs_def)

text \<open>
  Claim C5 as stated fails: with the token, the e-mail and the key all supplied,
  validation succeeds, no failure is reported and the run polls with the bearer token.
\<close>

theorem C5_both_forms_counterexample:
  "fst (validateAuthInputs ''tok'' ''user@example.com'' ''key'')
   \<and> run (example_inputs\<lparr>accountEmail := ''user@example.com'', apiKey := ''key''\<rparr>)
         example_world [listing []]
       = (Polling, initial_state,
          [Console_log ''Waiting for Pages to finish building...'', Sleep,
           Fetch_deployments (Bearer ''tok'') (deployments_url ''acc'' ''site''),
           Console_log ''Waiting for the deployment to start...''])"
  by (simp add: model_defs example_defs)

subsection \<open>C6: when updateDeployment pushes a status\<close>

text \<open>
  Claim C6. With an empty credential \<open>updateDeployment\<close> does nothing. With a non-empty
  one, a deployment status is pushed only when the latest stage is \<open>deploy\<close> with status
  \<open>success\<close> or \<open>failed\<close>; for any other stage the call pushes no status and does nothing
  but create the deployment record when none was created before; and for a finished
  deploy stage a call that does not throw pushes exactly one status, with the state it
  was given, for the recorded deployment.
\<close>

theorem C6_updateDeployment:
  "(token = [] \<longrightarrow> updateDeployment i w token d s st = (None, st, []))
 \<and> (token \<noteq> [] \<longrightarrow>
      (\<exists>err st' ev. updateDeployment i w token d s st = (err, st', ev)
         \<and> (list_ex is_status_push ev \<longrightarrow> deploy_finished d)
         \<and> (\<not> deploy_finished d \<longrightarrow>
               filter is_status_push ev = []
               \<and> length ev = (if ghDeployment st = None then 1 else 0)
               \<and> list_all is_record_creation ev)
         \<and> (deploy_finished d \<and> err = None \<longrightarrow>
               (\<exists>args. cs_state args = s \<and> ghDeployment st' = Some (cs_deployment_id args)
                  \<and> filter is_status_push ev = [Create_deployment_status args]))))"
proof (cases "deploy_finished d")
  case True
  show ?thesis
  proof (cases "ghDeployment st")
    case None
    show ?thesis
    proof (cases "createDeployment w \<lparr>cd_owner = repo_owner i, cd_repo = repo_name i,
                         cd_ref = commit_hash (deployment_trigger d),
                         cd_environment = environment_label d,
                         cd_production_environment = (environment d = ''production'')\<rparr>")
      case (Inl e)
      with None True show ?thesis
        by (simp add: updateDeployment_def is_status_push_def)
    next
      case (Inr n)
      from push_status_finished [OF True, of s n i w] obtain args where
        "cs_state args = s" "cs_deployment_id args = n"
        "push_status i w d s n = (createDeploymentStatus w args, [Create_deployment_status args])"
        by blast
      with None True Inr show ?thesis
        by (simp add: updateDeployment_def is_status_push_def)
    qed
  next
    case (Some n)
    from push_status_finished [OF True, of s n i w] obtain args where
      "cs_state args = s" "cs_deployment_id args = n"
      "push_status i w d s n = (createDeploymentStatus w args, [Create_deployment_status args])"
      by blast
    with Some True show ?thesis
      by (simp add: updateDeployment_def is_status_push_def)
  qed
next
  case False
  then show ?thesis
    by (auto simp add: updateDeployment_def push_status_other is_status_push_def
        is_record_creation_def Let_def split: option.splits sum.splits)
qed

text \<open>The theorem at a concrete input.\<close>

theorem C6_updateDeployment_witness:
  "''gh'' \<noteq> [] \<and> \<not> deploy_finished (at_stage ''queued'' ''active'')
   \<and> ghDeployment initial_state = None
   \<and> (\<exists>err st' ev.
         updateDeployment github_inputs example_world ''gh'' (at_stage ''queued'' ''active'')
             In_progress initial_state = (err, st', ev)
         \<and> filter is_status_push ev = [] \<and> length ev = 1 \<and> list_all is_record_creation ev)
   \<and> updateDeployment github_inputs example_world [] example_deployment Success initial_state
       = (None, initial_state, [])"
  using C6_updateDeployment [of "''gh''" github_inputs example_world "at_stage ''queued'' ''active''"
      In_progress initial_state]
    C6_updateDeployment [of "[]" github_inputs example_world example_deployment Success initial_state]
  by (auto simp add: deploy_finished_def at_stage_def example_deployment_def initial_state_def)

subsection \<open>C7: the outputs of a successful deployment\<close>

text \<open>
  Claim C7. When the poll of an iteration yields a deployment that is not skipped and
  whose latest stage is \<open>deploy\<close> with status \<open>success\<close>, and the in-progress
  reflection of that iteration does not throw, the run ends in that iteration, whatever
  later polls would answer, with \<open>waiting\<close> cleared, and its trace holds the outputs
  \<open>id\<close>, \<open>environment\<close>, \<open>url\<close> (the deployment's URL), \<open>alias\<close> (the first alias
  when there is one, the URL otherwise) and \<open>success = true\<close>, and no other output.
\<close>

theorem C7_deploy_success:
  assumes "fst (pollApi h (accountId i) (project i) (commitHash i) r st) = Some d"
    and "\<not> is_skipped d" and "waiting st"
    and "name (latest_stage d) = ''deploy''" and "status (latest_stage d) = ''success''"
    and "fst (stage_change i w d st) = None"
  shows "\<exists>oc st' before after.
           (\<forall>rs. run_loop i w h st (r # rs) = (oc, st', before @ success_outputs d @ after))
           \<and> oc \<noteq> Polling \<and> \<not> waiting st'
           \<and> list_all (\<lambda>e. \<not> is_output e) (before @ after)"
proof -
  note p = pollApi_Some [OF assms(1)]
  let ?fetch = "Fetch_deployments h (deployments_url (accountId i) (project i))"
  obtain st2 ev_stage where sc: "stage_change i w d st = (None, st2, ev_stage)"
    using assms(6) by (cases "stage_change i w d st") auto
  from stage_change_plain [of i w d st] sc have "list_all routine ev_stage" by simp
  then have b: "list_all (\<lambda>e. \<not> is_output e) (Sleep # ?fetch # ev_stage)"
    using routine_no_outputs [of ev_stage] by (simp add: is_output_def)
  from deploy_path_success [OF assms(5), of i w st2] obtain res st3 after where
    dp: "deploy_path i w d st2 = (res, st3, success_outputs d @ after)" "res \<noteq> Return"
      "\<not> waiting st3" "list_all (\<lambda>e. \<not> is_output e) after"
    by blast
  from p sc dp(1) assms(2,4,5)
  have body: "loop_body i w h r st = (res, st3, (Sleep # ?fetch # ev_stage) @ success_outputs d @ after)"
    by (simp add: loop_body_def)
  let ?oc = "case res of Throw e \<Rightarrow> Threw e | _ \<Rightarrow> Returned"
  have "run_loop i w h st (r # rs) = (?oc, st3, (Sleep # ?fetch # ev_stage) @ success_outputs d @ after)" for rs
    using body assms(3) dp(2) run_loop_halted [OF dp(3), of i w h rs] by (cases res) simp_all
  moreover have "?oc \<noteq> Polling" by (cases res) simp_all
  moreover from b dp(4) have "list_all (\<lambda>e. \<not> is_output e) ((Sleep # ?fetch # ev_stage) @ after)"
    by simp
  ultimately show ?thesis using dp(3) by blast
qed

text \<open>The theorem at a concrete input.\<close>

theorem C7_deploy_success_witness:
  "\<exists>oc st' before after.
     run_loop github_inputs example_world (Bearer ''tok'') initial_state
        [listing [example_deployment], listing [at_stage ''deploy'' ''failed'']]
       = (oc, st', before @ success_outputs example_deployment @ after)
     \<and> oc \<noteq> Polling \<and> \<not> waiting st' \<and> list_all (\<lambda>e. \<not> is_output e) (before @ after)"
proof -
  let ?r = "listing [example_deployment]"
  have 1: "fst (pollApi (Bearer ''tok'') (accountId github_inputs) (project github_inputs)
             (commitHash github_inputs) ?r initial_state) = Some example_deployment"
    by (simp add: pollApi_def example_defs)
  have 2: "\<not> is_skipped example_deployment" and 3: "waiting initial_state"
    and 4: "name (latest_stage example_deployment) = ''deploy''"
    and 5: "status (latest_stage example_deployment) = ''success''"
    by (simp_all add: example_deployment_def initial_state_def)
  have 6: "fst (stage_change github_inputs example_world example_deployment initial_state) = None"
    by (simp add: model_defs example_defs)
  from C7_deploy_success [OF 1 2 3 4 5 6] show ?thesis by blast
qed

subsection \<open>C8: a skipped deployment\<close>

text \<open>
  Claim C8. When the poll of an iteration yields a deployment with \<open>is_skipped\<close>, the
  run returns in that iteration, whatever later polls would answer. Besides the sleep
  and the request, its events are the skip line on the console and one output whose name
  is the skip message: no call of \<open>updateDeployment\<close>, no Slack message and no
  \<open>setFailed\<close>.
\<close>

theorem C8_skipped:
  assumes "fst (pollApi h (accountId i) (project i) (commitHash i) r st) = Some d"
    and "is_skipped d" and "waiting st"
  shows "run_loop i w h st (r # rs) =
           (Returned, st\<lparr>waiting := False\<rparr>,
            [Sleep, Fetch_deployments h (deployments_url (accountId i) (project i)),
             Console_log (''Deployment skipped '' @ dep_id d @ ''!''),
             Set_output (''Deployment skipped '' @ dep_id d @ ''!'') Out_undefined])"
  using assms(2,3) pollApi_Some [OF assms(1)] by (simp add: loop_body_def)

text \<open>The theorem at a concrete input.\<close>

theorem C8_skipped_witness:
  "run_loop example_inputs example_world (Bearer ''tok'') initial_state
     [listing [skipped_deployment], listing [example_deployment]]
   = (Returned, initial_state\<lparr>waiting := False\<rparr>,
      [Sleep, Fetch_deployments (Bearer ''tok'') (deployments_url ''acc'' ''site''),
       Console_log ''Deployment skipped d1!'',
       Set_output ''Deployment skipped d1!'' Out_undefined])"
  using C8_skipped [where h = "Bearer ''tok''" and i = example_inputs
      and r = "listing [skipped_deployment]" and st = initial_state and d = skipped_deployment
      and w = example_world and rs = "[listing [example_deployment]]"]
  by (simp add: pollApi_def example_defs initial_state_def)

subsection \<open>C9: getCloudflareLogs\<close>

text \<open>
  Claim C9. \<open>getCloudflareLogs\<close> always returns a string. It is empty when the request
  throws, when the response is not ok, when reading the body throws, when the body has
  no array of log entries and when that array is empty. Otherwise it is the fence, the
  last lines of the log joined by newlines (all of them up to 20, the last 20 beyond),
  a newline and the fence.
\<close>

theorem C9_getCloudflareLogs:
  "(logs_endpoint w (logs_url a p d) = Logs_network_failure e \<longrightarrow>
      fst (getCloudflareLogs w h a p d) = [])
 \<and> (logs_endpoint w (logs_url a p d) = Logs_response False code msg body \<longrightarrow>
      fst (getCloudflareLogs w h a p d) = [])
 \<and> (logs_endpoint w (logs_url a p d) = Logs_response True code msg (Body_throws e) \<longrightarrow>
      fst (getCloudflareLogs w h a p d) = [])
 \<and> (logs_endpoint w (logs_url a p d) = Logs_response True code msg Body_no_data \<longrightarrow>
      fst (getCloudflareLogs w h a p d) = [])
 \<and> (logs_endpoint w (logs_url a p d) = Logs_response True code msg (Body_data []) \<longrightarrow>
      fst (getCloudflareLogs w h a p d) = [])
 \<and> (logs_endpoint w (logs_url a p d) = Logs_response True code msg (Body_data lines)
      \<and> lines \<noteq> [] \<longrightarrow>
      (\<exists>kept. suffix kept lines \<and> length kept = min 20 (length lines)
         \<and> fst (getCloudflareLogs w h a p d) = fence @ join newline kept @ newline @ fence))"
proof -
  have "\<exists>kept. suffix kept lines \<and> length kept = min 20 (length lines)
           \<and> fence @ join newline (slice_last 20 lines) @ newline @ fence
               = fence @ join newline kept @ newline @ fence"
    using slice_last_suffix [of 20 lines] slice_last_length [of 20 lines] by blast
  then show ?thesis
    by (simp add: getCloudflareLogs_def)
qed

text \<open>The theorem at a concrete input.\<close>

theorem C9_getCloudflareLogs_witness:
  "logs_endpoint example_world (logs_url ''acc'' ''site'' ''d1'')
     = Logs_response True 200 ''OK'' (Body_data [''a'', ''b''])
   \<and> (\<exists>kept. suffix kept [''a'', ''b''] \<and> length kept = 2
         \<and> fst (getCloudflareLogs example_world (Bearer ''tok'') ''acc'' ''site'' ''d1'')
             = fence @ join newline kept @ newline @ fence)
   \<and> fst (getCloudflareLogs
            (example_world\<lparr>logs_endpoint := \<lambda>_. Logs_network_failure (Js_error ''FetchError'' ''reset'')\<rparr>)
            (Bearer ''tok'') ''acc'' ''site'' ''d1'') = []"
  using C9_getCloudflareLogs [where w = example_world and a = "''acc''" and p = "''site''"
      and d = "''d1''" and code = 200 and msg = "''OK''" and lines = "[''a'', ''b'']"
      and h = "Bearer ''tok''"]
    C9_getCloudflareLogs [where
      w = "example_world\<lparr>logs_endpoint := \<lambda>_. Logs_network_failure (Js_error ''FetchError'' ''reset'')\<rparr>"
      and a = "''acc''" and p = "''site''" and d = "''d1''" and h = "Bearer ''tok''"
      and e = "Js_error ''FetchError'' ''reset''"]
  by (auto simp add: example_world_def)

subsection \<open>C10: which deployment pollApi returns\<close>

text \<open>
  Claim C10. For a successful listing \<open>ds\<close>: with an empty \<open>commitHash\<close>, \<open>pollApi\<close>
  returns the first deployment of \<open>ds\<close> (none when \<open>ds\<close> is empty); with a non-empty
  one it returns the first deployment of \<open>ds\<close> whose trigger commit hash equals it, and
  none exactly when no deployment of \<open>ds\<close> has that hash. As long as the listings hold no
  match, each iteration sleeps, polls and logs the waiting line, and after any number of
  such polls the run is still polling, its state unchanged.
\<close>

theorem C10_pollApi:
  assumes "success body" and "result body = Some ds"
  shows "(c = [] \<longrightarrow>
            fst (pollApi h a p c (Json_body body) st) = (if ds = [] then None else Some (hd ds)))
       \<and> (c \<noteq> [] \<longrightarrow>
            (case fst (pollApi h a p c (Json_body body) st) of
               Some d \<Rightarrow> \<exists>pre post. ds = pre @ d # post \<and> commit_hash (deployment_trigger d) = c
                           \<and> list_all (\<lambda>x. commit_hash (deployment_trigger x) \<noteq> c) pre
             | None \<Rightarrow> list_all (\<lambda>x. commit_hash (deployment_trigger x) \<noteq> c) ds))
       \<and> (commitHash i \<noteq> [] \<and> waiting st' \<and> list_all (no_match (commitHash i)) rs \<longrightarrow>
            run_loop i w h st' rs = (Polling, st', concat (map (\<lambda>_. waiting_events i h) rs)))"
proof (intro conjI impI)
  assume "c = []"
  with assms show "fst (pollApi h a p c (Json_body body) st) = (if ds = [] then None else Some (hd ds))"
    by (cases ds) (simp_all add: pollApi_listing)
next
  assume c: "c \<noteq> []"
  let ?P = "\<lambda>d. commit_hash (deployment_trigger d) = c"
  from assms c have eq: "fst (pollApi h a p c (Json_body body) st) = find ?P ds"
    by (simp add: pollApi_listing)
  show "case fst (pollApi h a p c (Json_body body) st) of
               Some d \<Rightarrow> \<exists>pre post. ds = pre @ d # post \<and> commit_hash (deployment_trigger d) = c
                           \<and> list_all (\<lambda>x. commit_hash (deployment_trigger x) \<noteq> c) pre
             | None \<Rightarrow> list_all (\<lambda>x. commit_hash (deployment_trigger x) \<noteq> c) ds"
  proof (cases "find ?P ds")
    case None
    then have "list_all (\<lambda>x. commit_hash (deployment_trigger x) \<noteq> c) ds"
      by (simp add: find_None_list_all)
    with None eq show ?thesis by simp
  next
    case (Some d)
    from find_first_match [OF Some] show ?thesis using eq Some by (auto simp add: list_all_iff)
  qed
next
  assume "commitHash i \<noteq> [] \<and> waiting st' \<and> list_all (no_match (commitHash i)) rs"
  then show "run_loop i w h st' rs = (Polling, st', concat (map (\<lambda>_. waiting_events i h) rs))"
    by (simp add: run_loop_no_match)
qed

text \<open>The theorem at a concrete input.\<close>

theorem C10_pollApi_witness:
  "fst (pollApi (Bearer ''tok'') ''acc'' ''site'' [] 
          (Json_body \<lparr>success = True, errors = [], result = Some [other_commit, example_deployment]\<rparr>)
          initial_state) = Some other_commit
   \<and> (case fst (pollApi (Bearer ''tok'') ''acc'' ''site'' ''abc''
          (Json_body \<lparr>success = True, errors = [], result = Some [other_commit, example_deployment]\<rparr>)
          initial_state) of
        Some d \<Rightarrow> \<exists>pre post. [other_commit, example_deployment] = pre @ d # post
                    \<and> commit_hash (deployment_trigger d) = ''abc''
                    \<and> list_all (\<lambda>x. commit_hash (deployment_trigger x) \<noteq> ''abc'') pre
      | None \<Rightarrow> list_all (\<lambda>x. commit_hash (deployment_trigger x) \<noteq> ''abc'')
                  [other_commit, example_deployment])
   \<and> run_loop (example_inputs\<lparr>commitHash := ''abc''\<rparr>) example_world (Bearer ''tok'') initial_state
        [listing [other_commit], listing []]
      = (Polling, initial_state,
         waiting_events (example_inputs\<lparr>commitHash := ''abc''\<rparr>) (Bearer ''tok'')
         @ waiting_events (example_inputs\<lparr>commitHash := ''abc''\<rparr>) (Bearer ''tok''))"
proof -
  let ?body = "\<lparr>success = True, errors = [], result = Some [other_commit, example_deployment]\<rparr>"
  let ?i = "example_inputs\<lparr>commitHash := ''abc''\<rparr>"
  have s: "success ?body" "result ?body = Some [other_commit, example_deployment]" by simp_all
  have n: "commitHash ?i \<noteq> [] \<and> waiting initial_state
           \<and> list_all (no_match (commitHash ?i)) [listing [other_commit], listing []]"
    by (simp add: example_defs initial_state_def no_match_def)
  from C10_pollApi [OF s, where c = "[]" and h = "Bearer ''tok''" and a = "''acc''" and p = "''site''"
      and st = initial_state and i = ?i and st' = initial_state
      and rs = "[listing [other_commit], listing []]" and w = example_world]
    C10_pollApi [OF s, where c = "''abc''" and h = "Bearer ''tok''" and a = "''acc''" and p = "''site''"
      and st = initial_state and i = ?i and st' = initial_state
      and rs = "[listing [other_commit], listing []]" and w = example_world] n
  show ?thesis by simp
qed

end
